theory Spec2Isabelle
  imports Main
begin

section \<open>Text\<close>

text \<open>
  A JavaScript string is modelled by the UTF-8 bytes of its text (\<open>string\<close>). The
  regular expressions and string methods of the bot work on code points, so a string is
  first cut into its code points (\<open>codepoints\<close>): a lead byte with the continuation
  bytes \<open>0x80..0xBF\<close> that follow it. Every class the source uses (\<open>\s\<close>, \<open>\w\<close>,
  \<open>[0-9]\<close>, the literal command names) holds code points of the Basic Multilingual
  Plane only, so the cut agrees with JavaScript's UTF-16 code units on them.
\<close>

definition is_cont :: "char \<Rightarrow> bool" where
  "is_cont b = (0x80 \<le> (of_char b :: nat) \<and> (of_char b :: nat) < 0xC0)"

fun codepoints :: "string \<Rightarrow> string list" where
  "codepoints [] = []"
| "codepoints (b # bs) =
     (case codepoints bs of
        [] \<Rightarrow> [[b]]
      | c # cs \<Rightarrow> (if is_cont (hd c) then (b # c) # cs else [b] # c # cs))"

text \<open>
  The class \<open>\s\<close> of ECMAScript (WhiteSpace and LineTerminator): U+0009..U+000D, U+0020,
  U+00A0, U+1680, U+2000..U+200A, U+2028, U+2029, U+202F, U+205F, U+3000, U+FEFF, each in
  UTF-8. \<open>String.prototype.trim\<close> strips the same set.
\<close>

definition js_whitespace :: "string list" where
  "js_whitespace =
     [[CHR 0x09], [CHR 0x0A], [CHR 0x0B], [CHR 0x0C], [CHR 0x0D], [CHR 0x20],
      [CHR 0xC2, CHR 0xA0], [CHR 0xE1, CHR 0x9A, CHR 0x80],
      [CHR 0xE2, CHR 0x80, CHR 0x80], [CHR 0xE2, CHR 0x80, CHR 0x81],
      [CHR 0xE2, CHR 0x80, CHR 0x82], [CHR 0xE2, CHR 0x80, CHR 0x83],
      [CHR 0xE2, CHR 0x80, CHR 0x84], [CHR 0xE2, CHR 0x80, CHR 0x85],
      [CHR 0xE2, CHR 0x80, CHR 0x86], [CHR 0xE2, CHR 0x80, CHR 0x87],
      [CHR 0xE2, CHR 0x80, CHR 0x88], [CHR 0xE2, CHR 0x80, CHR 0x89],
      [CHR 0xE2, CHR 0x80, CHR 0x8A], [CHR 0xE2, CHR 0x80, CHR 0xA8],
      [CHR 0xE2, CHR 0x80, CHR 0xA9], [CHR 0xE2, CHR 0x80, CHR 0xAF],
      [CHR 0xE2, CHR 0x81, CHR 0x9F], [CHR 0xE3, CHR 0x80, CHR 0x80],
      [CHR 0xEF, CHR 0xBB, CHR 0xBF]]"

definition is_space :: "string \<Rightarrow> bool" where
  "is_space c = List.member js_whitespace c"

definition is_digit :: "char \<Rightarrow> bool" where
  "is_digit b = List.member ''0123456789'' b"

text \<open>The class \<open>\w\<close> (without the \<open>u\<close> flag): \<open>[A-Za-z0-9_]\<close>.\<close>

definition is_word_char :: "char \<Rightarrow> bool" where
  "is_word_char b =
     List.member ''ABCDEFGHIJKLMNOPQRSTUVWXYZabcdefghijklmnopqrstuvwxyz0123456789_'' b"

definition is_word :: "string \<Rightarrow> bool" where
  "is_word c = (case c of [b] \<Rightarrow> is_word_char b | _ \<Rightarrow> False)"

definition lower_char :: "char \<Rightarrow> char" where
  "lower_char b =
     (case map_of (zip ''ABCDEFGHIJKLMNOPQRSTUVWXYZ'' ''abcdefghijklmnopqrstuvwxyz'') b of
        Some l \<Rightarrow> l
      | None \<Rightarrow> b)"

text \<open>
  \<open>texto.match(/^\s*!(\w+)/i)\<close>: leading white space, an exclamation mark, and the longest
  non-empty run of word characters, which is the capture \<open>match[1]\<close>.
\<close>

definition match_command :: "string \<Rightarrow> string option" where
  "match_command texto =
     (case dropWhile is_space (codepoints texto) of
        [] \<Rightarrow> None
      | c # rest \<Rightarrow>
          if c = ''!'' \<and> takeWhile is_word rest \<noteq> []
          then Some (concat (takeWhile is_word rest)) else None)"

definition trim :: "string \<Rightarrow> string" where
  "trim s = concat (rev (dropWhile is_space (rev (dropWhile is_space (codepoints s)))))"

text \<open>
  \<open>texto.replace(/^\s*!name\s*/i, '')\<close> for a lower-case ASCII command name: without the
  \<open>u\<close> flag, \<open>/i\<close> equates an ASCII letter with its other case only.
\<close>

definition strip_command :: "string \<Rightarrow> string \<Rightarrow> string" where
  "strip_command name texto =
     (case dropWhile is_space (codepoints texto) of
        [] \<Rightarrow> texto
      | c # rest \<Rightarrow>
          if c = ''!'' \<and> map (map lower_char) (take (length name) rest) = map (\<lambda>b. [b]) name
          then concat (dropWhile is_space (drop (length name) rest))
          else texto)"

text \<open>
  \<open>s.split(/\s+/)\<close>: the tokens between runs of white space; a leading or trailing run
  leaves an empty first or last token, and the empty string splits into one empty token.
\<close>

fun split_space :: "string \<Rightarrow> string list \<Rightarrow> string list"
  and skip_space :: "string list \<Rightarrow> string list" where
  "split_space cur [] = [cur]"
| "split_space cur (c # cs) =
     (if is_space c then cur # skip_space cs else split_space (cur @ c) cs)"
| "skip_space [] = [[]]"
| "skip_space (c # cs) = (if is_space c then skip_space cs else split_space c cs)"

definition split_ws :: "string \<Rightarrow> string list" where
  "split_ws s = split_space [] (codepoints s)"

fun join_with :: "string \<Rightarrow> string list \<Rightarrow> string" where
  "join_with sep [] = []"
| "join_with sep [x] = x"
| "join_with sep (x # y # ys) = x @ sep @ join_with sep (y # ys)"

text \<open>
  \<open>s.replace(/:[0-9]+@/, '@')\<close>: the leftmost colon that is followed by one or more digits
  and an at sign; the colon and the digits are dropped. Only the first match is replaced.
\<close>

fun replace_device :: "string \<Rightarrow> string" where
  "replace_device [] = []"
| "replace_device (c # cs) =
     (if c = CHR '':'' \<and> takeWhile is_digit cs \<noteq> [] \<and>
         (case dropWhile is_digit cs of [] \<Rightarrow> False | d # _ \<Rightarrow> d = CHR ''@'')
      then dropWhile is_digit cs
      else c # replace_device cs)"

text \<open>
  \<open>s.replace(/[^0-9@s.whatsapp.net]/g, '')\<close>: the bracket is a character class, so every
  character that is not a digit or one of \<open>@ s . w h a t p n e\<close> is deleted.
\<close>

definition jid_charset :: "char \<Rightarrow> bool" where
  "jid_charset b = List.member ''0123456789@s.whatsapp.net'' b"

definition normalize_jid :: "string \<Rightarrow> string" where
  "normalize_jid s = filter jid_charset (replace_device s)"

definition endsWith :: "string \<Rightarrow> string \<Rightarrow> bool" where
  "endsWith s suf = (length suf \<le> length s \<and> drop (length s - length suf) s = suf)"

text \<open>A non-negative integer in a template literal: its decimal digits.\<close>

fun show_nat :: "nat \<Rightarrow> string" where
  "show_nat n =
     (if n < 10 then [''0123456789'' ! n]
      else show_nat (n div 10) @ [''0123456789'' ! (n mod 10)])"

text \<open>
  \<open>(len / 1024).toFixed(2)\<close>: \<open>len / 1024\<close> is exact in binary floating point, and
  \<open>toFixed\<close> rounds the exact value to hundredths, a tie upwards.
\<close>

definition kb_fixed2 :: "nat \<Rightarrow> string" where
  "kb_fixed2 len =
     (let h = (len * 100 + 512) div 1024
      in show_nat (h div 100) @ ''.'' @ show_nat (h mod 100 div 10) @ show_nat (h mod 10))"

text \<open>JavaScript truthiness of an optional string, and a chain \<open>a || b || ... || ''\<close>.\<close>

definition truthy :: "string option \<Rightarrow> bool" where
  "truthy v = (case v of None \<Rightarrow> False | Some s \<Rightarrow> s \<noteq> [])"

definition first_truthy :: "string option list \<Rightarrow> string" where
  "first_truthy vs = (case filter truthy vs of Some s # _ \<Rightarrow> s | _ \<Rightarrow> [])"

text \<open>The letters and pictographs of the source's literals that lie outside ASCII.\<close>

definition a_acute :: string where "a_acute = [CHR 0xC3, CHR 0xA1]"
definition i_acute :: string where "i_acute = [CHR 0xC3, CHR 0xAD]"
definition e_acute :: string where "e_acute = [CHR 0xC3, CHR 0xA9]"
definition o_acute :: string where "o_acute = [CHR 0xC3, CHR 0xB3]"
definition a_tilde :: string where "a_tilde = [CHR 0xC3, CHR 0xA3]"
definition o_tilde :: string where "o_tilde = [CHR 0xC3, CHR 0xB5]"
definition c_cedilla :: string where "c_cedilla = [CHR 0xC3, CHR 0xA7]"
definition cross_mark :: string where "cross_mark = [CHR 0xE2, CHR 0x9D, CHR 0x8C]"
definition memo_sign :: string where "memo_sign = [CHR 0xF0, CHR 0x9F, CHR 0x93, CHR 0x9D]"
definition warning_sign :: string where
  "warning_sign = [CHR 0xE2, CHR 0x9A, CHR 0xA0, CHR 0xEF, CHR 0xB8, CHR 0x8F]"
definition globe_sign :: string where "globe_sign = [CHR 0xF0, CHR 0x9F, CHR 0x8C, CHR 0x90]"
definition book_sign :: string where "book_sign = [CHR 0xF0, CHR 0x9F, CHR 0x93, CHR 0x96]"
definition frame_sign :: string where "frame_sign = [CHR 0xF0, CHR 0x9F, CHR 0x96, CHR 0xBC]"
definition people_sign :: string where "people_sign = [CHR 0xF0, CHR 0x9F, CHR 0x91, CHR 0xA5]"
definition info_sign :: string where
  "info_sign = [CHR 0xE2, CHR 0x84, CHR 0xB9, CHR 0xEF, CHR 0xB8, CHR 0x8F]"
definition bullet :: string where "bullet = [CHR 0xE2, CHR 0x80, CHR 0xA2]"
definition arrow :: string where "arrow = [CHR 0xE2, CHR 0x86, CHR 0x92]"

section \<open>Data\<close>

text \<open>
  A \<open>Buffer\<close> is its bytes. An \<open>Error\<close> is observed through its \<open>message\<close> only.
  A function that can throw returns \<open>error + 'a\<close>, \<open>Inl\<close> for the throw.
\<close>

type_synonym buffer = "char list"

datatype error = Error (message: string)

text \<open>
  The message object of an inbound event, with the fields the bot reads. An absent field
  (\<open>undefined\<close>) is \<open>None\<close>. \<open>quotedMessage\<close> stands for
  \<open>extendedTextMessage.contextInfo.quotedMessage\<close>; it is a message object itself.
  \<open>mediaKey\<close> stands for what \<open>downloadContentFromMessage\<close> reads of the media object to
  fetch its bytes (the key, the path, the URL): the download does not depend on the caption.
\<close>

record mediaMessage =
  caption :: "string option"
  mediaKey :: nat

datatype content =
  Content (conversation: "string option") (extendedTextMessage: "extendedText option")
    (imageMessage: "mediaMessage option") (videoMessage: "mediaMessage option")
and extendedText =
  ExtendedText (ext_text: "string option") (quotedMessage: "content option")

record wa_msg =
  key_remoteJid :: string
  key_participant :: "string option"
  msg_participant :: "string option"
  msg_message :: "content option"

text \<open>What a handler gets in an argument position: the router passes objects and strings.\<close>

datatype js_arg = ArgMsg wa_msg | ArgText string

record media =
  media_buffer :: buffer
  media_kind :: string

text \<open>The payloads of \<open>sock.sendMessage(jid, payload)\<close> the bot builds.\<close>

datatype payload =
    Text string
  | TextMentions string "string list"
  | Sticker buffer string bool
  | Audio buffer string

datatype level = Info | Warn | Err

record participant =
  part_id :: string
  part_admin :: "string option"

record groupMeta =
  participants :: "participant list"

text \<open>
  The entry of the rate-limit map. \<open>count\<close> starts at 0 and is only incremented or set to
  0; \<open>resetTime\<close> and \<open>Date.now()\<close> are integers of milliseconds.
\<close>

record rateWindow =
  count :: nat
  resetTime :: int

text \<open>The options object of the two transcoders; a missing key takes the default.\<close>

record sticker_opts =
  opt_maxDur :: "nat option"
  opt_fps :: "nat option"
  opt_size :: "nat option"
  opt_mode :: "string option"

text \<open>The request the image path puts to \<open>sharp\<close>: \<open>resize(...)\<close> and \<open>webp(...)\<close>.\<close>

record sharp_job =
  resize_width :: nat
  resize_height :: nat
  resize_fit :: string
  resize_position :: string
  resize_background :: "(nat \<times> nat \<times> nat \<times> nat) option"
  withoutEnlargement :: bool
  webp_quality :: nat
  webp_effort :: nat

text \<open>The command the video path builds with \<open>fluent-ffmpeg\<close>.\<close>

record ffmpeg_job =
  job_input :: string
  job_inputOptions :: "string list"
  job_noAudio :: bool
  job_complexFilter :: string
  job_filterMap :: "string list"
  job_outputOptions :: "string list"
  job_output :: string

record gemini_request =
  req_apiKey :: string
  req_model :: string
  req_image :: buffer
  req_mimeType :: string
  req_prompt :: string

section \<open>Environment and state\<close>

text \<open>
  The configuration and the collaborators outside the repository: the transport's media
  download and group directory, \<open>sharp\<close>, \<open>ffmpeg\<close>, the Gemini client, \<open>gTTS\<close>, the
  file system's write faults, \<open>sanitize-filename\<close>, and \<open>toLowerCase\<close> beyond ASCII.
  Each is a parameter; a collaborator that can fail returns \<open>error + 'a\<close>.
  \<open>ffmpeg_run\<close> gets the job and the files, and answers with its error (if any) and the
  bytes it left at the output path (if any). \<open>writeFile_fault\<close> is \<open>None\<close> when the
  write succeeds, else the error and what the failed write left at the path.
  \<open>unlink_fault\<close> is \<open>None\<close> when the file system lets the path be unlinked, else the
  error it rejects with (\<open>EPERM\<close>, \<open>EBUSY\<close>, ...). \<open>send_fault n jid payload\<close> is how
  the transport settles the call of \<open>sock.sendMessage(jid, payload)\<close> that comes after
  \<open>n\<close> earlier calls: \<open>None\<close> when it accepts the payload, else the error it rejects with.
\<close>

record env =
  OWNER_NUMBER :: string
  GEMINI_API_KEY :: "string option"
  tmpdir :: string
  sanitize :: "string \<Rightarrow> string"
  unicode_toLowerCase :: "string \<Rightarrow> string"
  downloadContentFromMessage :: "nat \<Rightarrow> string \<Rightarrow> error + buffer"
  sharp_toBuffer :: "buffer \<Rightarrow> sharp_job \<Rightarrow> error + buffer"
  writeFile_fault :: "string \<Rightarrow> buffer \<Rightarrow> (error \<times> buffer option) option"
  ffmpeg_run :: "ffmpeg_job \<Rightarrow> (string \<rightharpoonup> buffer) \<Rightarrow> error option \<times> buffer option"
  sock_groupMetadata :: "string \<Rightarrow> error + groupMeta"
  generateContent :: "gemini_request \<Rightarrow> error + string"
  gtts_save :: "string \<Rightarrow> string \<Rightarrow> error + buffer"
  unlink_fault :: "string \<Rightarrow> error option"
  send_fault :: "nat \<Rightarrow> string \<Rightarrow> payload \<Rightarrow> error option"

text \<open>
  The mutable state: the two module-level maps, the pending \<open>setTimeout\<close> callbacks of the
  cache (due time and key), the files, and the effects in the order they happen: the
  \<open>ffmpeg\<close> commands run, the number of calls of \<open>sock.sendMessage\<close> made, the payloads
  the transport accepted, and the lines handed to the logger.
\<close>

record bot_state =
  rateLimits :: "string \<rightharpoonup> rateWindow"
  groupMetadataCache :: "string \<rightharpoonup> groupMeta"
  timeouts :: "(int \<times> string) list"
  files :: "string \<rightharpoonup> buffer"
  spawned :: "ffmpeg_job list"
  send_calls :: nat
  sent :: "(string \<times> payload) list"
  logged :: "(level \<times> string) list"

text \<open>
  What one event draws from the clock and the random generator: \<open>Date.now()\<close> in
  \<open>checkRateLimit\<close>, and the \<open>${Date.now()}-${Math.random()...}\<close> stems of the temporary
  paths.
\<close>

record draws =
  draw_now :: int
  draw_stem1 :: string
  draw_stem2 :: string

text \<open>
  \<open>await sock.sendMessage(jid, payload)\<close>: the transport accepts the payload, which is
  then sent, or it rejects the call, and the rejection is thrown where the call is
  awaited.
\<close>

definition sendMessage :: "env \<Rightarrow> string \<Rightarrow> payload \<Rightarrow> bot_state \<Rightarrow> (error + unit) \<times> bot_state" where
  "sendMessage e jid p st =
     (case send_fault e (send_calls st) jid p of
        None \<Rightarrow> (Inr (), st\<lparr>send_calls := send_calls st + 1, sent := sent st @ [(jid, p)]\<rparr>)
      | Some err \<Rightarrow> (Inl err, st\<lparr>send_calls := send_calls st + 1\<rparr>))"

definition logger :: "level \<Rightarrow> string \<Rightarrow> bot_state \<Rightarrow> bot_state" where
  "logger lv line st = st\<lparr>logged := logged st @ [(lv, line)]\<rparr>"

definition toLowerCase :: "env \<Rightarrow> string \<Rightarrow> string" where
  "toLowerCase e s =
     (if list_all (\<lambda>b. (of_char b :: nat) < 0x80) s then map lower_char s
      else unicode_toLowerCase e s)"

text \<open>
  \<open>tmpPath(ext)\<close>: \<open>path.join(os.tmpdir(), `${stem}.${sanitize(ext)}`)\<close>, the stem being
  the clock and random part.
\<close>

definition tmpPath :: "env \<Rightarrow> string \<Rightarrow> string \<Rightarrow> string" where
  "tmpPath e stem ext = tmpdir e @ ''/'' @ stem @ ''.'' @ sanitize e ext"

subsection \<open>Files\<close>

definition fs_writeFile :: "env \<Rightarrow> string \<Rightarrow> buffer \<Rightarrow> bot_state \<Rightarrow> (error + unit) \<times> bot_state" where
  "fs_writeFile e path data st =
     (case writeFile_fault e path data of
        None \<Rightarrow> (Inr (), st\<lparr>files := (files st)(path \<mapsto> data)\<rparr>)
      | Some (err, left) \<Rightarrow>
          (Inl err, (case left of None \<Rightarrow> st | Some b \<Rightarrow> st\<lparr>files := (files st)(path \<mapsto> b)\<rparr>)))"

definition fs_readFile :: "string \<Rightarrow> bot_state \<Rightarrow> error + buffer" where
  "fs_readFile path st =
     (case files st path of
        None \<Rightarrow> Inl (Error (''ENOENT: no such file or directory, open '' @ [CHR 0x27] @ path @ [CHR 0x27]))
      | Some b \<Rightarrow> Inr b)"

text \<open>
  \<open>await fs.unlink(path).catch(() => {})\<close>: when the file system lets it, the file is
  removed. Every rejection is swallowed: when there is no file (\<open>ENOENT\<close>) nothing
  changes, and when the file system refuses, the file stays.
\<close>

definition fs_unlink_quiet :: "env \<Rightarrow> string \<Rightarrow> bot_state \<Rightarrow> bot_state" where
  "fs_unlink_quiet e path st =
     (case unlink_fault e path of
        None \<Rightarrow> st\<lparr>files := (files st)(path := None)\<rparr>
      | Some _ \<Rightarrow> st)"


section \<open>Media extraction\<close>

definition or_default :: "'a \<Rightarrow> 'a option \<Rightarrow> 'a" where
  "or_default d v = (case v of None \<Rightarrow> d | Some x \<Rightarrow> x)"

text \<open>
  \<open>types = ['imageMessage', 'videoMessage']\<close>, each with the kind the source derives from
  it by \<open>type.replace('Message', '').toLowerCase()\<close>.
\<close>

definition media_types :: "((content \<Rightarrow> mediaMessage option) \<times> string) list" where
  "media_types = [(imageMessage, ''image''), (videoMessage, ''video'')]"

definition media_too_large :: string where
  "media_too_large = ''M'' @ i_acute @ ''dia excede o limite de 10MB''"

text \<open>The \<open>for (const type of types)\<close> loop: the first field present is downloaded.\<close>

fun download_first ::
  "env \<Rightarrow> content \<Rightarrow> ((content \<Rightarrow> mediaMessage option) \<times> string) list \<Rightarrow> error + media option" where
  "download_first e msgobj [] = Inr None"
| "download_first e msgobj ((field, kind) # ts) =
     (case field msgobj of
        None \<Rightarrow> download_first e msgobj ts
      | Some m \<Rightarrow>
          (case downloadContentFromMessage e (mediaKey m) kind of
             Inl err \<Rightarrow> Inl err
           | Inr buffer \<Rightarrow>
               if length buffer > 10 * 1024 * 1024 then Inl (Error media_too_large)
               else Inr (Some \<lparr>media_buffer = buffer, media_kind = kind\<rparr>)))"

definition getMediaBuffer :: "env \<Rightarrow> wa_msg \<Rightarrow> error + media option" where
  "getMediaBuffer e msg =
     (case msg_message msg of
        None \<Rightarrow>
          Inl (Error (''Cannot read properties of undefined (reading '' @ [CHR 0x27] @
                 ''imageMessage'' @ [CHR 0x27] @ '')''))
      | Some direct \<Rightarrow>
          (let msgobj =
                 (case extendedTextMessage direct of
                    None \<Rightarrow> direct
                  | Some ext \<Rightarrow> (case quotedMessage ext of None \<Rightarrow> direct | Some q \<Rightarrow> q))
           in download_first e msgobj media_types))"

section \<open>Stickers\<close>

definition static_too_large :: string where
  "static_too_large = ''Figurinha est'' @ a_acute @ ''tica excede o limite de 1MB''"

definition animated_too_large :: string where
  "animated_too_large = ''Figurinha animada excede o limite de 1MB''"

definition sharp_request :: "nat \<Rightarrow> string \<Rightarrow> sharp_job" where
  "sharp_request sz mode =
     \<lparr>resize_width = sz, resize_height = sz, resize_fit = mode,
      resize_position = ''attention'',
      resize_background = (if mode = ''contain'' then Some (0, 0, 0, 0) else None),
      withoutEnlargement = False, webp_quality = 90, webp_effort = 4\<rparr>"

text \<open>
  The body of the \<open>try\<close> of \<open>imageToStickerWebp\<close>: one encode, then the size check, whose
  throw lands in the \<open>catch\<close> of the same function like any other.
\<close>

definition image_try :: "env \<Rightarrow> buffer \<Rightarrow> nat \<Rightarrow> string \<Rightarrow> error + buffer" where
  "image_try e imageBuffer sz mode =
     (case sharp_toBuffer e imageBuffer (sharp_request sz mode) of
        Inl err \<Rightarrow> Inl err
      | Inr webpBuffer \<Rightarrow>
          if length webpBuffer > 1024 * 1024 then Inl (Error static_too_large)
          else Inr webpBuffer)"

definition imageToStickerWebp ::
  "env \<Rightarrow> buffer \<Rightarrow> sticker_opts \<Rightarrow> bot_state \<Rightarrow> (error + buffer) \<times> bot_state" where
  "imageToStickerWebp e imageBuffer opts st =
     (let sz = or_default 512 (opt_size opts); mode = or_default ''cover'' (opt_mode opts)
      in case image_try e imageBuffer sz mode of
           Inr webpBuffer \<Rightarrow> (Inr webpBuffer, st)
         | Inl err \<Rightarrow>
             (Inl (Error ''Falha ao processar imagem para figurinha''),
              logger Err (''Erro ao criar figurinha de imagem: '' @ message err) st))"

definition filterComplex :: "string \<Rightarrow> nat \<Rightarrow> nat \<Rightarrow> string" where
  "filterComplex mode sz fps =
     (if mode = ''cover''
      then ''[0:v]scale='' @ show_nat sz @ '':'' @ show_nat sz @
           '':force_original_aspect_ratio=increase,setsar=1,crop='' @ show_nat sz @ '':'' @
           show_nat sz @ '',fps='' @ show_nat fps @ ''[v]''
      else join_with '';''
           [''color=c=black@0.0:s='' @ show_nat sz @ ''x'' @ show_nat sz @ ''[base]'',
            ''[0:v]scale='' @ show_nat sz @ '':'' @ show_nat sz @
              '':force_original_aspect_ratio=decrease,setsar=1[vid]'',
            ''[base][vid]overlay=(W-w)/2:(H-h)/2:shortest=1,fps='' @ show_nat fps @ ''[v]''])"

text \<open>
  The \<open>ffmpeg(inPath)...save(outPath)\<close> chain. The input option is the literal \<open>'-t 8'\<close>:
  the \<open>maxDur\<close> option is read from \<open>opts\<close> and never used.
\<close>

definition ffmpeg_command :: "string \<Rightarrow> string \<Rightarrow> string \<Rightarrow> nat \<Rightarrow> nat \<Rightarrow> ffmpeg_job" where
  "ffmpeg_command inPath outPath mode sz fps =
     \<lparr>job_input = inPath,
      job_inputOptions = [''-t 8''],
      job_noAudio = True,
      job_complexFilter = filterComplex mode sz fps,
      job_filterMap = [''v''],
      job_outputOptions =
        [''-loop'', ''0'', ''-vcodec'', ''libwebp'', ''-lossless'', ''0'', ''-q:v'', ''50'',
         ''-preset'', ''default'', ''-an'', ''-vsync'', ''0''],
      job_output = outPath\<rparr>"

definition run_ffmpeg :: "env \<Rightarrow> ffmpeg_job \<Rightarrow> bot_state \<Rightarrow> (error + unit) \<times> bot_state" where
  "run_ffmpeg e job st =
     (case ffmpeg_run e job (files st) of
        (err, out) \<Rightarrow>
          (let st0 = st\<lparr>spawned := spawned st @ [job]\<rparr>;
               st' = (case out of
                        None \<Rightarrow> st0
                      | Some b \<Rightarrow> st0\<lparr>files := (files st)(job_output job \<mapsto> b)\<rparr>)
           in case err of
                Some x \<Rightarrow> (Inl (Error (''FFmpeg error: '' @ message x)), st')
              | None \<Rightarrow> (Inr (), st')))"

text \<open>The body of the \<open>try\<close> of \<open>videoToStickerWebp\<close>.\<close>

definition video_try ::
  "env \<Rightarrow> string \<Rightarrow> string \<Rightarrow> buffer \<Rightarrow> string \<Rightarrow> nat \<Rightarrow> nat \<Rightarrow> bot_state \<Rightarrow>
     (error + buffer) \<times> bot_state" where
  "video_try e inPath outPath videoBuffer mode sz fps st =
     (case fs_writeFile e inPath videoBuffer st of
        (Inl err, st1) \<Rightarrow> (Inl err, st1)
      | (Inr _, st1) \<Rightarrow>
          (case run_ffmpeg e (ffmpeg_command inPath outPath mode sz fps) st1 of
             (Inl err, st2) \<Rightarrow> (Inl err, st2)
           | (Inr _, st2) \<Rightarrow>
               (case fs_readFile outPath st2 of
                  Inl err \<Rightarrow> (Inl err, st2)
                | Inr webpBuffer \<Rightarrow>
                    if length webpBuffer > 1024 * 1024
                    then (Inl (Error animated_too_large), st2)
                    else (Inr webpBuffer,
                          logger Info (''Figurinha gerada - Tamanho: '' @
                            kb_fixed2 (length webpBuffer) @ '' KB'') st2))))"

text \<open>\<open>try\<close>, then \<open>catch\<close> (log and rethrow with the cause), then \<open>finally\<close>.\<close>

definition videoToStickerWebp ::
  "env \<Rightarrow> draws \<Rightarrow> buffer \<Rightarrow> sticker_opts \<Rightarrow> bot_state \<Rightarrow> (error + buffer) \<times> bot_state" where
  "videoToStickerWebp e d videoBuffer opts st =
     (let fps = or_default 10 (opt_fps opts);
          sz = or_default 512 (opt_size opts);
          mode = or_default ''cover'' (opt_mode opts);
          inPath = tmpPath e (draw_stem1 d) ''mp4'';
          outPath = tmpPath e (draw_stem2 d) ''webp''
      in case video_try e inPath outPath videoBuffer mode sz fps st of
           (r, st1) \<Rightarrow>
             (let (r', st2) =
                    (case r of
                       Inr webpBuffer \<Rightarrow> (Inr webpBuffer, st1)
                     | Inl err \<Rightarrow>
                         (Inl (Error (''Falha ao criar figurinha de v'' @ i_acute @ ''deo: '' @
                                 message err)),
                          logger Err (''Erro ao criar figurinha de v'' @ i_acute @ ''deo: '' @
                                 message err) st1))
              in (r', fs_unlink_quiet e outPath (fs_unlink_quiet e inPath st2))))"

definition sticker_for :: "env \<Rightarrow> draws \<Rightarrow> media \<Rightarrow> bot_state \<Rightarrow> (error + buffer) \<times> bot_state" where
  "sticker_for e d m st =
     (if media_kind m = ''image''
      then imageToStickerWebp e (media_buffer m)
             \<lparr>opt_maxDur = None, opt_fps = None, opt_size = Some 512, opt_mode = Some ''contain''\<rparr> st
      else if media_kind m = ''video''
      then videoToStickerWebp e d (media_buffer m)
             \<lparr>opt_maxDur = Some 8, opt_fps = Some 10, opt_size = Some 512,
              opt_mode = Some ''contain''\<rparr> st
      else (Inl (Error (''Tipo de m'' @ i_acute @ ''dia n'' @ a_tilde @
                  ''o suportado para figurinha'')), st))"

text \<open>
  \<open>enviarFigurinha\<close>: the \<open>try\<close> holds the transcoding, the sending of the sticker and the
  \<open>info\<close> line; its \<open>catch\<close> (\<open>figurinha_catch\<close>) logs the error and awaits the sending of
  the error text, whose rejection leaves the function.
\<close>

definition figurinha_catch :: "env \<Rightarrow> string \<Rightarrow> error \<Rightarrow> bot_state \<Rightarrow> (error + unit) \<times> bot_state" where
  "figurinha_catch e jid err st =
     sendMessage e jid (Text (cross_mark @ '' Erro ao enviar figurinha: '' @ message err))
       (logger Err (''Erro ao enviar figurinha: '' @ message err) st)"

definition enviarFigurinha ::
  "env \<Rightarrow> draws \<Rightarrow> string \<Rightarrow> media \<Rightarrow> bot_state \<Rightarrow> (error + unit) \<times> bot_state" where
  "enviarFigurinha e d jid m st =
     (case sticker_for e d m st of
        (Inr webp, st1) \<Rightarrow>
          (case sendMessage e jid (Sticker webp ''image/webp'' (media_kind m = ''video'')) st1 of
             (Inr _, st2) \<Rightarrow>
               (Inr (),
                logger Info (''Figurinha enviada para '' @ jid @ '' - Tipo: '' @ media_kind m) st2)
           | (Inl err, st2) \<Rightarrow> figurinha_catch e jid err st2)
      | (Inl err, st1) \<Rightarrow> figurinha_catch e jid err st1)"


section \<open>Group directory\<close>

definition admins_of :: "groupMeta \<Rightarrow> string list" where
  "admins_of meta = map part_id (filter (\<lambda>p. truthy (part_admin p)) (participants meta))"

text \<open>
  \<open>getGroupAdmins\<close> suspends at \<open>await sock.groupMetadata(jid)\<close> between its test
  \<open>groupMetadataCache.has(jid)\<close> and its \<open>set\<close>. \<open>getGroupAdmins_enter\<close> is the part
  before the suspension: the admins when the key is cached, \<open>None\<close> when the fetch is
  awaited. \<open>getGroupAdmins_resume\<close> is the part after it, run when the fetch has settled:
  a rejection is thrown on; a roster is stored, its eviction is scheduled for
  \<open>5 * 60 * 1000\<close> ms later, and its admins are returned. \<open>getGroupAdmins\<close> is the
  call whose fetch settles at once.
\<close>

definition getGroupAdmins_enter :: "string \<Rightarrow> bot_state \<Rightarrow> string list option" where
  "getGroupAdmins_enter jid st = map_option admins_of (groupMetadataCache st jid)"

definition getGroupAdmins_resume ::
  "int \<Rightarrow> string \<Rightarrow> error + groupMeta \<Rightarrow> bot_state \<Rightarrow> (error + string list) \<times> bot_state" where
  "getGroupAdmins_resume now jid fetched st =
     (case fetched of
        Inl err \<Rightarrow> (Inl err, st)
      | Inr meta \<Rightarrow>
          (Inr (admins_of meta),
           st\<lparr>groupMetadataCache := (groupMetadataCache st)(jid \<mapsto> meta),
              timeouts := timeouts st @ [(now + 5 * 60 * 1000, jid)]\<rparr>))"

definition getGroupAdmins ::
  "env \<Rightarrow> int \<Rightarrow> string \<Rightarrow> bot_state \<Rightarrow> (error + string list) \<times> bot_state" where
  "getGroupAdmins e now jid st =
     (case getGroupAdmins_enter jid st of
        Some admins \<Rightarrow> (Inr admins, st)
      | None \<Rightarrow> getGroupAdmins_resume now jid (sock_groupMetadata e jid) st)"

definition isUserAdmin ::
  "env \<Rightarrow> int \<Rightarrow> string \<Rightarrow> string \<Rightarrow> bot_state \<Rightarrow> (error + bool) \<times> bot_state" where
  "isUserAdmin e now jid userJid st =
     (case getGroupAdmins e now jid st of
        (Inl err, st1) \<Rightarrow> (Inl err, st1)
      | (Inr admins, st1) \<Rightarrow> (Inr (List.member admins userJid), st1))"


definition marcarTodosInvisivel ::
  "env \<Rightarrow> string \<Rightarrow> string \<Rightarrow> bot_state \<Rightarrow> (error + unit) \<times> bot_state" where
  "marcarTodosInvisivel e jid conteudo st =
     (case (case groupMetadataCache st jid of
              Some meta \<Rightarrow> Inr meta
            | None \<Rightarrow> sock_groupMetadata e jid) of
        Inl err \<Rightarrow> (Inl err, st)
      | Inr meta \<Rightarrow>
          (sendMessage e jid
             (TextMentions (''@everyone '' @ conteudo) (map part_id (participants meta))) st))"

section \<open>Gemini\<close>

definition key_missing :: string where
  "key_missing = ''GEMINI_API_KEY n'' @ a_tilde @ ''o configurada''"

definition ocrFromImageGemini :: "env \<Rightarrow> buffer \<Rightarrow> bot_state \<Rightarrow> (error + string) \<times> bot_state" where
  "ocrFromImageGemini e buffer st =
     (case GEMINI_API_KEY e of
        None \<Rightarrow> (Inl (Error key_missing), st)
      | Some k \<Rightarrow>
          if k = [] then (Inl (Error key_missing), st)
          else
            (case generateContent e
                    \<lparr>req_apiKey = k, req_model = ''gemini-1.5-flash'', req_image = buffer,
                     req_mimeType = ''image/jpeg'', req_prompt = ''Extract text from this image''\<rparr> of
               Inl err \<Rightarrow>
                 (Inl (Error ''Falha ao extrair texto da imagem''),
                  logger Err (''Erro no OCR: '' @ message err) st)
             | Inr txt \<Rightarrow> (Inr txt, st)))"

definition ocrAndTranslateImageGemini ::
  "env \<Rightarrow> buffer \<Rightarrow> string \<Rightarrow> bot_state \<Rightarrow> (error + string) \<times> bot_state" where
  "ocrAndTranslateImageGemini e buffer lang st =
     (case GEMINI_API_KEY e of
        None \<Rightarrow> (Inl (Error key_missing), st)
      | Some k \<Rightarrow>
          if k = [] then (Inl (Error key_missing), st)
          else
            (case generateContent e
                    \<lparr>req_apiKey = k, req_model = ''gemini-1.5-flash'', req_image = buffer,
                     req_mimeType = ''image/jpeg'',
                     req_prompt = ''Extract text from this image and translate it to '' @ lang\<rparr> of
               Inl err \<Rightarrow>
                 (Inl (Error ''Falha ao traduzir texto da imagem''),
                  logger Err (''Erro na tradu'' @ c_cedilla @ a_tilde @ ''o de imagem: '' @
                    message err) st)
             | Inr txt \<Rightarrow> (Inr txt, st)))"

section \<open>Rate limiting\<close>

definition RATE_LIMIT_max :: nat where
  "RATE_LIMIT_max = 5"

definition RATE_LIMIT_windowMs :: int where
  "RATE_LIMIT_windowMs = 60 * 1000"

definition rate_limit_message :: string where
  "rate_limit_message = ''Limite de comandos atingido. Tente novamente em alguns minutos.''"

text \<open>
  \<open>rateLimits.get(sender)\<close> returns the stored object itself, so the reset of \<open>count\<close> and
  \<open>resetTime\<close> writes through to the map before the limit is tested; a sender without an
  entry gets a fresh object, which reaches the map at \<open>rateLimits.set\<close> only.
\<close>

definition checkRateLimit ::
  "int \<Rightarrow> string \<Rightarrow> (string \<rightharpoonup> rateWindow) \<Rightarrow> (error + unit) \<times> (string \<rightharpoonup> rateWindow)" where
  "checkRateLimit now sender rl =
     (let stored = rl sender;
          userLimit = (case stored of
                         Some u \<Rightarrow> u
                       | None \<Rightarrow> \<lparr>count = 0, resetTime = now\<rparr>);
          userLimit = (if now > resetTime userLimit
                       then userLimit\<lparr>count := 0, resetTime := now + RATE_LIMIT_windowMs\<rparr>
                       else userLimit);
          rl = (case stored of Some _ \<Rightarrow> rl(sender \<mapsto> userLimit) | None \<Rightarrow> rl)
      in if count userLimit \<ge> RATE_LIMIT_max
         then (Inl (Error rate_limit_message), rl)
         else (Inr (), rl(sender \<mapsto> userLimit\<lparr>count := count userLimit + 1\<rparr>)))"


section \<open>Handlers\<close>

definition buildMenu :: "env \<Rightarrow> string \<Rightarrow> string \<Rightarrow> string" where
  "buildMenu e jid sender =
     join_with [CHR 0x0A] (filter (\<lambda>l. l \<noteq> [])
       [book_sign @ '' *Menu de Comandos*'',
        [],
        frame_sign @ '' *Figurinhas & IA*'',
        bullet @ '' !sticker / !fig / !s '' @ arrow @ '' imagem = est'' @ a_acute @ ''tica; v'' @
          i_acute @ ''deo/GIF (at'' @ e_acute @ '' 8s) = animada'',
        bullet @ '' !gifsticker '' @ arrow @ '' figurinha animada'',
        bullet @ '' !ocr '' @ arrow @ '' extrai texto de uma imagem'',
        bullet @ '' !imgtr [pt|en...] '' @ arrow @ '' OCR + tradu'' @ c_cedilla @ a_tilde @ ''o'',
        [],
        people_sign @ '' *Grupo*'',
        bullet @ '' !todos [msg] '' @ arrow @ '' marca todos'',
        [],
        info_sign @ '' *Observa'' @ c_cedilla @ o_tilde @ ''es*'',
        bullet @ '' Figurinhas: m'' @ a_acute @ ''x. 512x512, at'' @ e_acute @ '' 1MB.'',
        (if \<not> truthy (GEMINI_API_KEY e)
         then bullet @ '' Configure GEMINI_API_KEY para !ocr e !imgtr.'' else [])])"

definition handleMenu :: "env \<Rightarrow> string \<Rightarrow> string \<Rightarrow> bot_state \<Rightarrow> (error + unit) \<times> bot_state" where
  "handleMenu e jid sender st = (sendMessage e jid (Text (buildMenu e jid sender)) st)"

definition handleSticker ::
  "env \<Rightarrow> draws \<Rightarrow> string \<Rightarrow> string \<Rightarrow> wa_msg \<Rightarrow> bot_state \<Rightarrow> (error + unit) \<times> bot_state" where
  "handleSticker e d jid sender msg st =
     (case getMediaBuffer e msg of
        Inl err \<Rightarrow> (Inl err, st)
      | Inr None \<Rightarrow>
          (sendMessage e jid
             (Text (cross_mark @ '' Envie uma imagem, v'' @ i_acute @
                ''deo curto ou GIF (ou responda a um).'')) st)
      | Inr (Some m) \<Rightarrow> enviarFigurinha e d jid m st)"

definition handleOCR ::
  "env \<Rightarrow> string \<Rightarrow> string \<Rightarrow> wa_msg \<Rightarrow> bot_state \<Rightarrow> (error + unit) \<times> bot_state" where
  "handleOCR e jid sender msg st =
     (case getMediaBuffer e msg of
        Inl err \<Rightarrow> (Inl err, st)
      | Inr mo \<Rightarrow>
          (case mo of
             Some m \<Rightarrow>
               if media_kind m \<noteq> ''image''
               then (sendMessage e jid
                       (Text (cross_mark @ '' Envie ou responda a uma *imagem* com !ocr.'')) st)
               else
                 (case ocrFromImageGemini e (media_buffer m) st of
                    (Inl err, st1) \<Rightarrow> (Inl err, st1)
                  | (Inr txt, st1) \<Rightarrow>
                      (sendMessage e jid
                         (Text (if txt \<noteq> []
                                then memo_sign @ '' *Texto reconhecido:*'' @ [CHR 0x0A] @ txt
                                else warning_sign @ '' Nenhum texto encontrado.'')) st1))
           | None \<Rightarrow>
               (sendMessage e jid
                  (Text (cross_mark @ '' Envie ou responda a uma *imagem* com !ocr.'')) st)))"

definition handleImageTranslate ::
  "env \<Rightarrow> string \<Rightarrow> string \<Rightarrow> wa_msg \<Rightarrow> js_arg \<Rightarrow> bot_state \<Rightarrow> (error + unit) \<times> bot_state" where
  "handleImageTranslate e jid sender msg texto st =
     (case texto of
        ArgMsg _ \<Rightarrow>
          (sendMessage e jid
             (Text (cross_mark @ '' Erro: Nenhum texto fornecido para !imgtr.'')) st)
      | ArgText t \<Rightarrow>
          (let args = trim (strip_command ''imgtr'' t);
               lang = toLowerCase e
                        (case split_ws args of
                           [] \<Rightarrow> ''pt''
                         | tok # _ \<Rightarrow> if tok \<noteq> [] then tok else ''pt'')
           in case getMediaBuffer e msg of
                Inl err \<Rightarrow> (Inl err, st)
              | Inr mo \<Rightarrow>
                  (case mo of
                     Some m \<Rightarrow>
                       if media_kind m \<noteq> ''image''
                       then (sendMessage e jid
                               (Text (cross_mark @
                                  '' Envie ou responda a uma *imagem* com !imgtr [lang].'')) st)
                       else
                         (case ocrAndTranslateImageGemini e (media_buffer m) lang st of
                            (Inl err, st1) \<Rightarrow> (Inl err, st1)
                          | (Inr translated, st1) \<Rightarrow>
                              (sendMessage e jid
                                 (Text (if translated \<noteq> []
                                        then globe_sign @ '' *Tradu'' @ c_cedilla @ a_tilde @
                                             ''o ('' @ lang @ ''):*'' @ [CHR 0x0A] @ translated
                                        else warning_sign @ '' Nenhum texto para traduzir.'')) st1))
                   | None \<Rightarrow>
                       (sendMessage e jid
                          (Text (cross_mark @
                             '' Envie ou responda a uma *imagem* com !imgtr [lang].'')) st))))"

text \<open>
  \<open>handleTodos\<close> computes \<open>isOwner\<close> and hands it to the logger; no branch reads it.
\<close>

definition handleTodos ::
  "env \<Rightarrow> string \<Rightarrow> string \<Rightarrow> js_arg \<Rightarrow> bot_state \<Rightarrow> (error + unit) \<times> bot_state" where
  "handleTodos e jid sender texto st =
     (if \<not> endsWith jid ''@g.us''
      then (sendMessage e jid
              (Text (cross_mark @ '' Este comando s'' @ o_acute @ '' funciona em grupos.'')) st)
      else
        (let normalizedSender = normalize_jid sender;
             normalizedOwner = normalize_jid (OWNER_NUMBER e);
             isOwner = (normalizedSender = normalizedOwner);
             st1 = logger Info
                     (''Verificando !todos - Sender: '' @ sender @ '', Normalized Sender: '' @
                      normalizedSender @ '', Owner: '' @ OWNER_NUMBER e @
                      '', Normalized Owner: '' @ normalizedOwner @ '', IsOwner: '' @
                      (if isOwner then ''true'' else ''false'')) st;
             conteudo = (case texto of
                           ArgText t \<Rightarrow> trim (strip_command ''todos'' t)
                         | ArgMsg _ \<Rightarrow> [])
         in marcarTodosInvisivel e jid conteudo st1))"

text \<open>
  The \<open>try\<close> and \<open>catch\<close> of \<open>handleTTS\<close>: the synthesis, the reading of the file and the
  sending of the audio are in the \<open>try\<close>; the \<open>catch\<close> (\<open>tts_catch\<close>) logs the error and
  awaits the sending of the failure text, whose rejection leaves the handler.
\<close>

definition tts_catch :: "env \<Rightarrow> string \<Rightarrow> error \<Rightarrow> bot_state \<Rightarrow> (error + unit) \<times> bot_state" where
  "tts_catch e jid err st =
     sendMessage e jid (Text (cross_mark @ '' Falha ao gerar '' @ a_acute @ ''udio.''))
       (logger Err (''Erro no TTS: '' @ message err) st)"

definition tts_try ::
  "env \<Rightarrow> string \<Rightarrow> string \<Rightarrow> string \<Rightarrow> string \<Rightarrow> bot_state \<Rightarrow> (error + unit) \<times> bot_state" where
  "tts_try e jid txt lang outPath st =
     (case gtts_save e txt lang of
        Inl err \<Rightarrow> tts_catch e jid err st
      | Inr audio \<Rightarrow>
          (let st1 = st\<lparr>files := (files st)(outPath \<mapsto> audio)\<rparr>
           in case fs_readFile outPath st1 of
                Inl err \<Rightarrow> tts_catch e jid err st1
              | Inr bytes \<Rightarrow>
                  (case sendMessage e jid (Audio bytes ''audio/mpeg'') st1 of
                     (Inl err, st2) \<Rightarrow> tts_catch e jid err st2
                   | (Inr _, st2) \<Rightarrow> (Inr (), st2))))"

definition handleTTS ::
  "env \<Rightarrow> draws \<Rightarrow> string \<Rightarrow> string \<Rightarrow> js_arg \<Rightarrow> bot_state \<Rightarrow> (error + unit) \<times> bot_state" where
  "handleTTS e d jid sender texto st =
     (case texto of
        ArgMsg _ \<Rightarrow>
          (sendMessage e jid
             (Text (cross_mark @ '' Erro: Nenhum texto fornecido para !tts.'')) st)
      | ArgText t \<Rightarrow>
          (let args = trim (strip_command ''tts'' t);
               toks = split_ws args;
               lang = (case toks of [] \<Rightarrow> [] | l # _ \<Rightarrow> l);
               txt = join_with '' '' (tl toks)
           in if txt = [] \<or> lang = []
              then (sendMessage e jid
                      (Text (cross_mark @ '' Use: !tts [pt|en|es] texto'')) st)
              else
                (let outPath = tmpPath e (draw_stem1 d) ''mp3''
                 in case tts_try e jid txt lang outPath st of
                      (r, st1) \<Rightarrow> (r, fs_unlink_quiet e outPath st1))))"

section \<open>Router\<close>

datatype handler =
  HandleMenu | HandleSticker | HandleOCR | HandleImageTranslate | HandleTodos | HandleTTS

record command =
  cmd_handler :: handler
  cmd_aliases :: "string list option"

text \<open>The \<open>commands\<close> object: its keys in insertion order, as \<open>Object.values\<close> lists them.\<close>

definition commands :: "(string \<times> command) list" where
  "commands =
     [(''menu'', \<lparr>cmd_handler = HandleMenu, cmd_aliases = Some [''help'', ''ajuda'']\<rparr>),
      (''sticker'', \<lparr>cmd_handler = HandleSticker, cmd_aliases = Some [''fig'', ''s'']\<rparr>),
      (''gifsticker'', \<lparr>cmd_handler = HandleSticker, cmd_aliases = None\<rparr>),
      (''ocr'', \<lparr>cmd_handler = HandleOCR, cmd_aliases = None\<rparr>),
      (''imgtr'', \<lparr>cmd_handler = HandleImageTranslate, cmd_aliases = None\<rparr>),
      (''todos'', \<lparr>cmd_handler = HandleTodos, cmd_aliases = None\<rparr>),
      (''tts'', \<lparr>cmd_handler = HandleTTS, cmd_aliases = None\<rparr>)]"

text \<open>
  \<open>Object.values(commands).find(c => c.aliases?.includes(cmdName) || c === commands[cmdName])\<close>.
  The values are seven distinct objects, so \<open>c === commands[cmdName]\<close> holds exactly when
  \<open>c\<close> is the value under the key \<open>cmdName\<close>; a name the object only inherits (such as
  \<open>constructor\<close>) yields a value that is none of them.
\<close>

definition find_command :: "string \<Rightarrow> command option" where
  "find_command cmdName =
     map_option snd
       (find (\<lambda>(k, c). (case cmd_aliases c of None \<Rightarrow> False | Some al \<Rightarrow> List.member al cmdName)
                        \<or> k = cmdName) commands)"

text \<open>
  \<open>cmd.handler(sock, jid, sender, msg, texto)\<close>: every handler is called with the same five
  arguments and binds them by position. \<open>handleTodos\<close> and \<open>handleTTS\<close> declare
  \<open>(sock, jid, sender, texto)\<close>, so their \<open>texto\<close> is the message object.
\<close>

definition call_handler ::
  "handler \<Rightarrow> env \<Rightarrow> draws \<Rightarrow> string \<Rightarrow> string \<Rightarrow> wa_msg \<Rightarrow> string \<Rightarrow> bot_state \<Rightarrow>
     (error + unit) \<times> bot_state" where
  "call_handler h e d jid sender msg texto st =
     (case h of
        HandleMenu \<Rightarrow> handleMenu e jid sender st
      | HandleSticker \<Rightarrow> handleSticker e d jid sender msg st
      | HandleOCR \<Rightarrow> handleOCR e jid sender msg st
      | HandleImageTranslate \<Rightarrow> handleImageTranslate e jid sender msg (ArgText texto) st
      | HandleTodos \<Rightarrow> handleTodos e jid sender (ArgMsg msg) st
      | HandleTTS \<Rightarrow> handleTTS e d jid sender (ArgMsg msg) st)"

text \<open>The body of the router's \<open>try\<close>: the rate limiter, then the handler.\<close>

definition guarded_call ::
  "command \<Rightarrow> env \<Rightarrow> draws \<Rightarrow> string \<Rightarrow> string \<Rightarrow> wa_msg \<Rightarrow> string \<Rightarrow> bot_state \<Rightarrow>
     (error + unit) \<times> bot_state" where
  "guarded_call cmd e d jid sender msg texto st =
     (case checkRateLimit (draw_now d) sender (rateLimits st) of
        (Inl err, rl) \<Rightarrow> (Inl err, st\<lparr>rateLimits := rl\<rparr>)
      | (Inr _, rl) \<Rightarrow>
          call_handler (cmd_handler cmd) e d jid sender msg texto (st\<lparr>rateLimits := rl\<rparr>))"

definition message_text :: "content \<Rightarrow> string" where
  "message_text c =
     first_truthy
       [conversation c,
        (case extendedTextMessage c of None \<Rightarrow> None | Some ext \<Rightarrow> ext_text ext),
        (case imageMessage c of None \<Rightarrow> None | Some m \<Rightarrow> caption m),
        (case videoMessage c of None \<Rightarrow> None | Some m \<Rightarrow> caption m)]"

definition sender_of :: "wa_msg \<Rightarrow> string" where
  "sender_of msg =
     first_truthy [key_participant msg, msg_participant msg, Some (key_remoteJid msg)]"

definition received_line :: "string \<Rightarrow> string \<Rightarrow> string \<Rightarrow> string" where
  "received_line jid sender texto =
     ''Mensagem recebida - JID: '' @ jid @ '', Sender: '' @ sender @ '', Texto: '' @ texto"

definition command_failed_line :: "string \<Rightarrow> error \<Rightarrow> string" where
  "command_failed_line cmdName err = ''Erro no comando '' @ cmdName @ '': '' @ message err"

definition failure_reply :: "error \<Rightarrow> payload" where
  "failure_reply err = Text (cross_mark @ '' Erro: '' @ message err)"

text \<open>
  The callback of \<open>messages.upsert\<close>. Its result is how the callback's promise settles:
  \<open>Inr ()\<close> when it returns, \<open>Inl\<close> when an exception leaves it. The \<open>catch\<close> awaits
  the sending of the failure reply outside any \<open>try\<close>, so the rejection of that call
  leaves the callback.
\<close>

definition on_messages_upsert ::
  "env \<Rightarrow> draws \<Rightarrow> wa_msg list \<Rightarrow> bot_state \<Rightarrow> (error + unit) \<times> bot_state" where
  "on_messages_upsert e d messages st =
     (case messages of
        [] \<Rightarrow> (Inr (), st)
      | msg # _ \<Rightarrow>
          (case msg_message msg of
             None \<Rightarrow> (Inr (), st)
           | Some c \<Rightarrow>
               (let jid = key_remoteJid msg;
                    sender = sender_of msg;
                    texto = message_text c;
                    st1 = logger Info (received_line jid sender texto) st
                in case match_command texto of
                     None \<Rightarrow> (Inr (), st1)
                   | Some tok \<Rightarrow>
                       (let cmdName = toLowerCase e tok
                        in case find_command cmdName of
                             None \<Rightarrow> (Inr (), st1)
                           | Some cmd \<Rightarrow>
                               (case guarded_call cmd e d jid sender msg texto st1 of
                                  (Inr _, st2) \<Rightarrow> (Inr (), st2)
                                | (Inl err, st2) \<Rightarrow>
                                    sendMessage e jid (failure_reply err)
                                      (logger Err (command_failed_line cmdName err) st2))))))"

section \<open>Runs\<close>

definition init_state :: bot_state where
  "init_state =
     \<lparr>rateLimits = Map.empty, groupMetadataCache = Map.empty, timeouts = [], files = Map.empty,
      spawned = [], send_calls = 0, sent = [], logged = []\<rparr>"

text \<open>
  A run of the rate limiter from the empty map: the calls in order, each with its clock
  reading and sender. The run keeps, for every call, the sender, the clock reading, the
  window the call fell in (the \<open>resetTime\<close> of the sender's entry after the call) and
  whether the call returned.
\<close>

type_synonym rate_entry = "string \<times> int \<times> int option \<times> bool"

definition rate_step ::
  "rate_entry list \<times> (string \<rightharpoonup> rateWindow) \<Rightarrow> int \<times> string \<Rightarrow>
     rate_entry list \<times> (string \<rightharpoonup> rateWindow)" where
  "rate_step acc call =
     (case acc of (lg, rl) \<Rightarrow>
      case call of (now, sender) \<Rightarrow>
      case checkRateLimit now sender rl of (r, rl') \<Rightarrow>
        (lg @ [(sender, now, map_option resetTime (rl' sender), \<not> isl r)], rl'))"

definition rate_run :: "(int \<times> string) list \<Rightarrow> rate_entry list \<times> (string \<rightharpoonup> rateWindow)" where
  "rate_run calls = foldl rate_step ([], Map.empty) calls"









section \<open>The command table, read as a list of names\<close>

text \<open>Every key of \<open>commands\<close> followed by its aliases.\<close>

definition registered_names :: "string list" where
  "registered_names =
     concat (map (\<lambda>(k, c). k # (case cmd_aliases c of None \<Rightarrow> [] | Some al \<Rightarrow> al)) commands)"


section \<open>Sample inputs\<close>

text \<open>
  An environment in which every collaborator answers, one in which the group directory is
  unreachable, the draws of one event, and a text message of a group member.
\<close>

definition sample_roster :: groupMeta where
  "sample_roster =
     \<lparr>participants =
        [\<lparr>part_id = ''5511999999999@s.whatsapp.net'', part_admin = None\<rparr>,
         \<lparr>part_id = ''558188345519@s.whatsapp.net'', part_admin = Some ''superadmin''\<rparr>]\<rparr>"

definition sample_env :: env where
  "sample_env =
     \<lparr>OWNER_NUMBER = ''558188345519@s.whatsapp.net'',
      GEMINI_API_KEY = None,
      tmpdir = ''/tmp'',
      sanitize = (\<lambda>x. x),
      unicode_toLowerCase = (\<lambda>s. s),
      downloadContentFromMessage = (\<lambda>k kind. Inr ''jpeg bytes''),
      sharp_toBuffer = (\<lambda>b job. Inr ''webp bytes''),
      writeFile_fault = (\<lambda>p b. None),
      ffmpeg_run = (\<lambda>job fs. (None, Some ''animated webp bytes'')),
      sock_groupMetadata = (\<lambda>jid. Inr sample_roster),
      generateContent = (\<lambda>r. Inl (Error ''fetch failed'')),
      gtts_save = (\<lambda>t l. Inr ''mp3 bytes''),
      unlink_fault = (\<lambda>p. None),
      send_fault = (\<lambda>n jid p. None)\<rparr>"

definition sample_draws :: draws where
  "sample_draws = \<lparr>draw_now = 1000, draw_stem1 = ''1000-k3j2'', draw_stem2 = ''1000-p9x1''\<rparr>"

definition text_message :: "string \<Rightarrow> string \<Rightarrow> string \<Rightarrow> wa_msg" where
  "text_message jid sender txt =
     \<lparr>key_remoteJid = jid, key_participant = Some sender, msg_participant = None,
      msg_message = Some (Content (Some txt) None None None)\<rparr>"



definition locked_env :: env where
  "locked_env =
     sample_env\<lparr>unlink_fault := (\<lambda>p. Some (Error ''EPERM: operation not permitted, unlink''))\<rparr>"

text \<open>
  The options the sticker path passes to the image transcoder, a video attachment, and two
  environments whose encoders produce an artifact of 1 MiB and one byte.
\<close>

definition contain_512 :: sticker_opts where
  "contain_512 =
     \<lparr>opt_maxDur = None, opt_fps = None, opt_size = Some 512, opt_mode = Some ''contain''\<rparr>"


definition big_video_env :: env where
  "big_video_env =
     sample_env\<lparr>ffmpeg_run := (\<lambda>job fs. (None, Some (replicate 1048577 (CHR 0x00))))\<rparr>"

definition oversize_env :: env where
  "oversize_env = sample_env\<lparr>sharp_toBuffer := (\<lambda>b job. Inr (replicate 1048577 (CHR 0x00)))\<rparr>"

section \<open>Size errors\<close>

text \<open>
  An error is a size error when its message is one of the two size-limit messages or
  ends with one (the video path rethrows with the cause appended).
\<close>

definition is_size_error :: "error \<Rightarrow> bool" where
  "is_size_error err =
     (endsWith (message err) static_too_large \<or> endsWith (message err) animated_too_large)"

section \<open>Which attachment\<close>

text \<open>
  \<open>quoted_of\<close>: the quoted message a message carries, \<open>image_then_video\<close>: the image of
  a message object if it has one, else its video, each with its kind.
  \<open>fetch_attachment\<close> is the body of the loop of \<open>getMediaBuffer\<close> applied to a chosen
  attachment: the download and the 10 MiB check.
\<close>

definition quoted_of :: "content \<Rightarrow> content option" where
  "quoted_of c = (case extendedTextMessage c of None \<Rightarrow> None | Some ext \<Rightarrow> quotedMessage ext)"

definition image_then_video :: "content \<Rightarrow> (mediaMessage \<times> string) option" where
  "image_then_video c =
     (case imageMessage c of
        Some m \<Rightarrow> Some (m, ''image'')
      | None \<Rightarrow> (case videoMessage c of Some m \<Rightarrow> Some (m, ''video'') | None \<Rightarrow> None))"

text \<open>
  The order as claim C4 words it: direct image, direct video, quoted image, quoted video.
  This definition follows the claim, not the source.
\<close>

definition claimed_attachment :: "content \<Rightarrow> (mediaMessage \<times> string) option" where
  "claimed_attachment c =
     (case image_then_video c of
        Some a \<Rightarrow> Some a
      | None \<Rightarrow> (case quoted_of c of None \<Rightarrow> None | Some q \<Rightarrow> image_then_video q))"

definition fetch_attachment :: "env \<Rightarrow> (mediaMessage \<times> string) option \<Rightarrow> error + media option" where
  "fetch_attachment e a =
     (case a of
        None \<Rightarrow> Inr None
      | Some (m, kind) \<Rightarrow>
          (case downloadContentFromMessage e (mediaKey m) kind of
             Inl err \<Rightarrow> Inl err
           | Inr buffer \<Rightarrow>
               if length buffer > 10 * 1024 * 1024 then Inl (Error media_too_large)
               else Inr (Some \<lparr>media_buffer = buffer, media_kind = kind\<rparr>)))"

text \<open>
  A message with an image of its own whose \<open>extendedTextMessage\<close> quotes a message with a
  video, and an environment whose download tells the two media apart.
\<close>

definition keyed_env :: env where
  "keyed_env =
     sample_env\<lparr>downloadContentFromMessage :=
       (\<lambda>k kind. Inr (if k = 1 then ''bytes of the direct image'' else ''bytes of the quoted video''))\<rparr>"

definition image_replying_to_video :: content where
  "image_replying_to_video =
     Content None
       (Some (ExtendedText (Some ''!sticker'')
          (Some (Content None None None (Some \<lparr>caption = None, mediaKey = 2\<rparr>)))))
       (Some \<lparr>caption = None, mediaKey = 1\<rparr>) None"

definition message_with :: "content \<Rightarrow> wa_msg" where
  "message_with c =
     \<lparr>key_remoteJid = ''5511999999999@s.whatsapp.net'', key_participant = None,
      msg_participant = None, msg_message = Some c\<rparr>"

section \<open>States that differ in the log only\<close>

text \<open>
  Two states have the same effects when they agree on everything but the logger's lines:
  the two maps, the pending evictions, the files, the commands run, the calls of
  \<open>sock.sendMessage\<close> made and the payloads sent.
\<close>

definition same_effects :: "bot_state \<Rightarrow> bot_state \<Rightarrow> bool" where
  "same_effects st st' =
     (rateLimits st = rateLimits st' \<and> groupMetadataCache st = groupMetadataCache st' \<and>
      timeouts st = timeouts st' \<and> files st = files st' \<and> spawned st = spawned st' \<and>
      send_calls st = send_calls st' \<and> sent st = sent st')"

text \<open>An image sent to the bot in a private chat, with a caption.\<close>

definition captioned_image :: "string \<Rightarrow> wa_msg" where
  "captioned_image txt =
     \<lparr>key_remoteJid = ''5511999999999@s.whatsapp.net'', key_participant = None,
      msg_participant = None,
      msg_message = Some (Content None None (Some \<lparr>caption = Some txt, mediaKey = 1\<rparr>) None)\<rparr>"

section \<open>Invariants of a run of the group directory\<close>








section \<open>What the parts of a handler leave alone\<close>

lemma sent_logger [simp]: "sent (logger lv line st) = sent st"
  by (simp add: logger_def)

lemma send_calls_logger [simp]: "send_calls (logger lv line st) = send_calls st"
  by (simp add: logger_def)

lemma logged_logger [simp]: "logged (logger lv line st) = logged st @ [(lv, line)]"
  by (simp add: logger_def)

lemma files_logger [simp]: "files (logger lv line st) = files st"
  by (simp add: logger_def)

lemma spawned_logger [simp]: "spawned (logger lv line st) = spawned st"
  by (simp add: logger_def)

lemma sent_unlink [simp]: "sent (fs_unlink_quiet e p st) = sent st"
  by (simp add: fs_unlink_quiet_def split: option.splits)

lemma send_calls_unlink [simp]: "send_calls (fs_unlink_quiet e p st) = send_calls st"
  by (simp add: fs_unlink_quiet_def split: option.splits)

lemma spawned_unlink [simp]: "spawned (fs_unlink_quiet e p st) = spawned st"
  by (simp add: fs_unlink_quiet_def split: option.splits)

lemma sendMessage_accepted:
  "send_fault e (send_calls st) jid p = None \<Longrightarrow>
     sendMessage e jid p st =
       (Inr (), st\<lparr>send_calls := send_calls st + 1, sent := sent st @ [(jid, p)]\<rparr>)"
  by (simp add: sendMessage_def)

lemma sendMessage_rejected:
  "send_fault e (send_calls st) jid p = Some x \<Longrightarrow>
     sendMessage e jid p st = (Inl x, st\<lparr>send_calls := send_calls st + 1\<rparr>)"
  by (simp add: sendMessage_def)

lemma sendMessage_throw:
  "sendMessage e jid p st = (Inl err, st') \<Longrightarrow>
     sent st' = sent st \<and> send_fault e (send_calls st) jid p = Some err"
  by (auto simp: sendMessage_def split: option.splits)

lemma sendMessage_return:
  "sendMessage e jid p st = (Inr u, st') \<Longrightarrow>
     sent st' = sent st @ [(jid, p)] \<and> send_fault e (send_calls st) jid p = None"
  by (auto simp: sendMessage_def split: option.splits)

lemma fs_writeFile_quiet:
  "sent (snd (fs_writeFile e p b st)) = sent st \<and>
   send_calls (snd (fs_writeFile e p b st)) = send_calls st \<and>
   spawned (snd (fs_writeFile e p b st)) = spawned st"
  by (simp add: fs_writeFile_def split: option.splits prod.splits)






section \<open>The rate limiter\<close>

text \<open>
  Claim C1, evaluated at a sender without an entry who calls seven times, one second
  apart. The entry of a new sender is created as \<open>{ count: 0, resetTime: now }\<close>: its
  window ends at the first call itself, where the reset branch gives a window that ends
  \<open>windowMs\<close> after the call. So the first call is counted in a window of no length, the
  second call (at 1000) finds that window over and opens the one that ends at 61000, and
  the calls at 1000, 2000, 3000, 4000 and 5000 are the five of that window. Six calls of
  the sender have returned within five seconds; the sixth attempt is not refused. The
  seventh, at 6000, is refused with the rate-limit error and leaves the map as it was.
\<close>

theorem new_sender_sixth_call_returns:
  "checkRateLimit 0 ''5511999999999@s.whatsapp.net'' Map.empty =
     (Inr (), [''5511999999999@s.whatsapp.net'' \<mapsto> \<lparr>count = 1, resetTime = 0\<rparr>]) \<and>
   rate_run
     [(0, ''5511999999999@s.whatsapp.net''), (1000, ''5511999999999@s.whatsapp.net''),
      (2000, ''5511999999999@s.whatsapp.net''), (3000, ''5511999999999@s.whatsapp.net''),
      (4000, ''5511999999999@s.whatsapp.net''), (5000, ''5511999999999@s.whatsapp.net'')] =
     ([(''5511999999999@s.whatsapp.net'', 0, Some 0, True),
       (''5511999999999@s.whatsapp.net'', 1000, Some 61000, True),
       (''5511999999999@s.whatsapp.net'', 2000, Some 61000, True),
       (''5511999999999@s.whatsapp.net'', 3000, Some 61000, True),
       (''5511999999999@s.whatsapp.net'', 4000, Some 61000, True),
       (''5511999999999@s.whatsapp.net'', 5000, Some 61000, True)],
      [''5511999999999@s.whatsapp.net'' \<mapsto> \<lparr>count = 5, resetTime = 61000\<rparr>]) \<and>
   length (filter (\<lambda>(s, now, w, ok). s = ''5511999999999@s.whatsapp.net'' \<and> ok \<and> now < 60 * 1000)
     (fst (rate_run
        [(0, ''5511999999999@s.whatsapp.net''), (1000, ''5511999999999@s.whatsapp.net''),
         (2000, ''5511999999999@s.whatsapp.net''), (3000, ''5511999999999@s.whatsapp.net''),
         (4000, ''5511999999999@s.whatsapp.net''), (5000, ''5511999999999@s.whatsapp.net'')]))) = 6 \<and>
   checkRateLimit 6000 ''5511999999999@s.whatsapp.net''
     [''5511999999999@s.whatsapp.net'' \<mapsto> \<lparr>count = 5, resetTime = 61000\<rparr>] =
     (Inl (Error rate_limit_message),
      [''5511999999999@s.whatsapp.net'' \<mapsto> \<lparr>count = 5, resetTime = 61000\<rparr>])"
proof -
  let ?s = "''5511999999999@s.whatsapp.net''"
  let ?cs = "[(0, ?s), (1000, ?s), (2000, ?s), (3000, ?s), (4000, ?s), (5000 :: int, ?s)]"
  have a: "checkRateLimit 0 ?s Map.empty = (Inr (), [?s \<mapsto> \<lparr>count = 1, resetTime = 0\<rparr>])"
    by (simp add: checkRateLimit_def Let_def RATE_LIMIT_max_def)
  have b: "rate_run ?cs =
     ([(?s, 0, Some 0, True), (?s, 1000, Some 61000, True), (?s, 2000, Some 61000, True),
       (?s, 3000, Some 61000, True), (?s, 4000, Some 61000, True), (?s, 5000, Some 61000, True)],
      [?s \<mapsto> \<lparr>count = 5, resetTime = 61000\<rparr>])"
    by (simp add: rate_run_def rate_step_def checkRateLimit_def Let_def RATE_LIMIT_max_def
        RATE_LIMIT_windowMs_def eval_nat_numeral)
  have c: "length (filter (\<lambda>(s, now, w, ok). s = ?s \<and> ok \<and> now < 60 * 1000)
      (fst (rate_run ?cs))) = 6"
    unfolding b by simp
  have d: "checkRateLimit 6000 ?s [?s \<mapsto> \<lparr>count = 5, resetTime = 61000\<rparr>] =
     (Inl (Error rate_limit_message), [?s \<mapsto> \<lparr>count = 5, resetTime = 61000\<rparr>])"
    by (simp add: checkRateLimit_def Let_def RATE_LIMIT_max_def RATE_LIMIT_windowMs_def)
  from a b c d show ?thesis by simp
qed

section \<open>The router\<close>

subsection \<open>What a throwing handler has sent\<close>

















lemma on_messages_upsert_resolved:
  "msg_message msg = Some c \<Longrightarrow> match_command (message_text c) = Some tok \<Longrightarrow>
   find_command (toLowerCase e tok) = Some cmd \<Longrightarrow>
   on_messages_upsert e d (msg # others) st =
     (case guarded_call cmd e d (key_remoteJid msg) (sender_of msg) msg (message_text c)
             (logger Info (received_line (key_remoteJid msg) (sender_of msg) (message_text c)) st) of
        (Inr _, st2) \<Rightarrow> (Inr (), st2)
      | (Inl err, st2) \<Rightarrow>
          sendMessage e (key_remoteJid msg) (failure_reply err)
            (logger Err (command_failed_line (toLowerCase e tok) err) st2))"
  by (simp add: on_messages_upsert_def Let_def)

subsection \<open>The sample inputs, evaluated\<close>

lemma match_hello: "match_command ''hello'' = None"
  by (simp add: match_command_def is_space_def js_whitespace_def is_cont_def)

lemma match_dance: "match_command ''!dance now'' = Some ''dance''"
  by (simp add: match_command_def is_space_def js_whitespace_def is_cont_def is_word_def is_word_char_def)

lemma lower_dance: "toLowerCase sample_env ''dance'' = ''dance''"
  by (simp add: toLowerCase_def lower_char_def)

lemma dance_unregistered: "\<not> List.member registered_names ''dance''"
  by (simp add: registered_names_def commands_def)

lemma match_todos: "match_command ''!todos party time'' = Some ''todos''"
  by code_simp

lemma lower_todos: "toLowerCase sample_env ''todos'' = ''todos''"
  by code_simp

lemma find_todos: "find_command ''todos'' = Some \<lparr>cmd_handler = HandleTodos, cmd_aliases = None\<rparr>"
  by (simp add: find_command_def commands_def)

lemma handleTodos_broadcasts:
  assumes "endsWith jid ''@g.us''"
    and "groupMetadataCache st jid = None"
    and "sock_groupMetadata e jid = Inr meta"
    and "send_fault e (send_calls st) jid
           (TextMentions ''@everyone '' (map part_id (participants meta))) = None"
  shows "fst (handleTodos e jid sender (ArgMsg msg) st) = Inr () \<and>
         sent (snd (handleTodos e jid sender (ArgMsg msg) st)) =
           sent st @ [(jid, TextMentions ''@everyone '' (map part_id (participants meta)))]"
  using assms
  by (simp add: handleTodos_def marcarTodosInvisivel_def Let_def logger_def sendMessage_def)


subsection \<open>The catch boundary\<close>






subsection \<open>Messages that are not commands\<close>

lemma find_command_None:
  "find_command name = None \<longleftrightarrow> \<not> List.member registered_names name"
  by (auto simp add: find_command_def registered_names_def commands_def)

text \<open>
  Claim C8. For every inbound message with a body: when the text has no leading
  \<open>!word\<close> token, or when its token (in lower case) is none of the registered names and
  aliases, the callback returns, sends nothing, and leaves the rate-limit map, the
  group-metadata cache, its pending evictions, the files and the commands run unchanged
  (only the line "Mensagem recebida" is logged).
\<close>

theorem unmatched_message_is_ignored:
  assumes "msg_message msg = Some c"
    and "match_command (message_text c) = None \<or>
         (\<exists>tok. match_command (message_text c) = Some tok \<and>
                \<not> List.member registered_names (toLowerCase e tok))"
  shows "fst (on_messages_upsert e d (msg # others) st) = Inr () \<and>
         sent (snd (on_messages_upsert e d (msg # others) st)) = sent st \<and>
         rateLimits (snd (on_messages_upsert e d (msg # others) st)) = rateLimits st \<and>
         groupMetadataCache (snd (on_messages_upsert e d (msg # others) st)) = groupMetadataCache st \<and>
         timeouts (snd (on_messages_upsert e d (msg # others) st)) = timeouts st \<and>
         files (snd (on_messages_upsert e d (msg # others) st)) = files st \<and>
         spawned (snd (on_messages_upsert e d (msg # others) st)) = spawned st"
proof -
  have "on_messages_upsert e d (msg # others) st =
      (Inr (), logger Info (received_line (key_remoteJid msg) (sender_of msg) (message_text c)) st)"
    using assms(2)
  proof
    assume "match_command (message_text c) = None"
    then show ?thesis using assms(1) by (simp add: on_messages_upsert_def Let_def)
  next
    assume "\<exists>tok. match_command (message_text c) = Some tok \<and>
                \<not> List.member registered_names (toLowerCase e tok)"
    then obtain tok where t: "match_command (message_text c) = Some tok"
      and n: "find_command (toLowerCase e tok) = None"
      by (auto simp: find_command_None)
    then show ?thesis using assms(1) by (simp add: on_messages_upsert_def Let_def)
  qed
  then show ?thesis by (simp add: logger_def)
qed

theorem unmatched_message_is_ignored_witness:
  "sent (snd (on_messages_upsert sample_env sample_draws
      [text_message ''120363041234567890@g.us'' ''5511999999999@s.whatsapp.net'' ''hello'']
      init_state)) = [] \<and>
   rateLimits (snd (on_messages_upsert sample_env sample_draws
      [text_message ''120363041234567890@g.us'' ''5511999999999@s.whatsapp.net'' ''hello'']
      init_state)) = Map.empty \<and>
   sent (snd (on_messages_upsert sample_env sample_draws
      [text_message ''120363041234567890@g.us'' ''5511999999999@s.whatsapp.net'' ''!dance now'']
      init_state)) = [] \<and>
   rateLimits (snd (on_messages_upsert sample_env sample_draws
      [text_message ''120363041234567890@g.us'' ''5511999999999@s.whatsapp.net'' ''!dance now'']
      init_state)) = Map.empty"
proof -
  let ?jid = "''120363041234567890@g.us''"
  let ?sender = "''5511999999999@s.whatsapp.net''"
  have a1: "msg_message (text_message ?jid ?sender ''hello'') =
      Some (Content (Some ''hello'') None None None)"
    by (simp add: text_message_def)
  have a2: "match_command (message_text (Content (Some ''hello'') None None None)) = None \<or>
      (\<exists>tok. match_command (message_text (Content (Some ''hello'') None None None)) = Some tok \<and>
         \<not> List.member registered_names (toLowerCase sample_env tok))"
    by (simp add: message_text_def first_truthy_def truthy_def match_hello)
  have b1: "msg_message (text_message ?jid ?sender ''!dance now'') =
      Some (Content (Some ''!dance now'') None None None)"
    by (simp add: text_message_def)
  have b2: "match_command (message_text (Content (Some ''!dance now'') None None None)) = None \<or>
      (\<exists>tok. match_command (message_text (Content (Some ''!dance now'') None None None)) = Some tok \<and>
         \<not> List.member registered_names (toLowerCase sample_env tok))"
    using dance_unregistered by (simp add: message_text_def first_truthy_def truthy_def match_dance lower_dance)
  show ?thesis
    using unmatched_message_is_ignored [OF a1 a2, of sample_draws "[]" init_state]
      unmatched_message_is_ignored [OF b1 b2, of sample_draws "[]" init_state]
    by (simp add: init_state_def)
qed

subsection \<open>The broadcast of a non-owner\<close>

text \<open>
  Claim C2, evaluated at a group message \<open>!todos party time\<close> whose sender is not the
  owner: the normalised sender differs from the normalised owner, and yet the bot sends
  the mention-everyone message to the group. (The text after the command is lost as
  well: \<open>handleTodos\<close> receives the message object where it expects the text.)
\<close>

theorem todos_from_non_owner_is_broadcast:
  "normalize_jid ''5511999999999@s.whatsapp.net'' \<noteq> normalize_jid (OWNER_NUMBER sample_env) \<and>
   sent (snd (on_messages_upsert sample_env sample_draws
          [text_message ''120363041234567890@g.us'' ''5511999999999@s.whatsapp.net''
             ''!todos party time'']
          init_state)) =
     [(''120363041234567890@g.us'',
       TextMentions ''@everyone ''
         [''5511999999999@s.whatsapp.net'', ''558188345519@s.whatsapp.net''])]"
proof
  show "normalize_jid ''5511999999999@s.whatsapp.net'' \<noteq> normalize_jid (OWNER_NUMBER sample_env)"
    by (simp add: normalize_jid_def jid_charset_def is_digit_def sample_env_def)
next
  let ?jid = "''120363041234567890@g.us''"
  let ?sender = "''5511999999999@s.whatsapp.net''"
  let ?msg = "text_message ?jid ?sender ''!todos party time''"
  let ?c = "Content (Some ''!todos party time'') None None None"
  let ?st1 = "logger Info (received_line ?jid ?sender ''!todos party time'') init_state"
  have h1: "msg_message ?msg = Some ?c" by (simp add: text_message_def)
  have tx: "message_text ?c = ''!todos party time''"
    by (simp add: message_text_def first_truthy_def truthy_def)
  have h2: "match_command (message_text ?c) = Some ''todos''" unfolding tx by (rule match_todos)
  have h3: "find_command (toLowerCase sample_env ''todos'') =
      Some \<lparr>cmd_handler = HandleTodos, cmd_aliases = None\<rparr>"
    by (simp add: lower_todos find_todos)
  have sd: "sender_of ?msg = ?sender"
    by (simp add: sender_of_def text_message_def first_truthy_def truthy_def)
  have jd: "key_remoteJid ?msg = ?jid" by (simp add: text_message_def)
  have rl: "checkRateLimit (draw_now sample_draws) ?sender (rateLimits ?st1) =
      (Inr (), [?sender \<mapsto> \<lparr>count = 1, resetTime = 1000\<rparr>])"
    by (simp add: checkRateLimit_def Let_def RATE_LIMIT_max_def logger_def init_state_def
        sample_draws_def)
  let ?st2 = "?st1\<lparr>rateLimits := [?sender \<mapsto> \<lparr>count = 1, resetTime = 1000\<rparr>]\<rparr>"
  have b: "fst (handleTodos sample_env ?jid ?sender (ArgMsg ?msg) ?st2) = Inr () \<and>
         sent (snd (handleTodos sample_env ?jid ?sender (ArgMsg ?msg) ?st2)) =
           sent ?st2 @ [(?jid, TextMentions ''@everyone '' (map part_id (participants sample_roster)))]"
    by (rule handleTodos_broadcasts)
      (simp_all add: endsWith_def logger_def init_state_def sample_env_def)
  obtain st3 where g: "guarded_call \<lparr>cmd_handler = HandleTodos, cmd_aliases = None\<rparr> sample_env
      sample_draws ?jid ?sender ?msg ''!todos party time'' ?st1 = (Inr (), st3)"
    and s3: "sent st3 = sent ?st2 @ [(?jid, TextMentions ''@everyone '' (map part_id (participants sample_roster)))]"
    using b by (cases "handleTodos sample_env ?jid ?sender (ArgMsg ?msg) ?st2")
      (simp add: guarded_call_def rl call_handler_def)
  have "on_messages_upsert sample_env sample_draws [?msg] init_state = (Inr (), st3)"
    using on_messages_upsert_resolved [OF h1 h2 h3, of sample_draws "[]" init_state] g
    by (simp add: sd jd tx)
  then show "sent (snd (on_messages_upsert sample_env sample_draws [?msg] init_state)) =
     [(?jid, TextMentions ''@everyone ''
         [''5511999999999@s.whatsapp.net'', ''558188345519@s.whatsapp.net''])]"
    using s3 by (simp add: logger_def init_state_def sample_roster_def)
qed

section \<open>The transcoders\<close>

subsection \<open>What the video path does to the files and to ffmpeg\<close>

lemma files_unlink:
  "files (fs_unlink_quiet e p st) =
     (case unlink_fault e p of None \<Rightarrow> (files st)(p := None) | Some x \<Rightarrow> files st)"
  by (simp add: fs_unlink_quiet_def split: option.splits)

lemma endsWith_append: "endsWith (a @ b) b"
  by (simp add: endsWith_def)

lemma image_try_cases:
  "image_try e b sz mode = Inr w \<Longrightarrow>
     sharp_toBuffer e b (sharp_request sz mode) = Inr w \<and> length w \<le> 1024 * 1024"
  by (auto simp: image_try_def split: sum.splits if_splits)

lemma image_try_oversize:
  "sharp_toBuffer e b (sharp_request sz mode) = Inr a \<Longrightarrow> 1024 * 1024 < length a \<Longrightarrow>
     image_try e b sz mode = Inl (Error static_too_large)"
  by (simp add: image_try_def)

lemma imageToStickerWebp_Inr:
  "fst (imageToStickerWebp e b opts st) = Inr w \<Longrightarrow>
     sharp_toBuffer e b (sharp_request (or_default 512 (opt_size opts))
        (or_default ''cover'' (opt_mode opts))) = Inr w \<and> length w \<le> 1024 * 1024"
  by (auto simp: imageToStickerWebp_def Let_def split: sum.splits dest: image_try_cases)

lemma imageToStickerWebp_oversize:
  "sharp_toBuffer e b (sharp_request (or_default 512 (opt_size opts))
        (or_default ''cover'' (opt_mode opts))) = Inr a \<Longrightarrow> 1024 * 1024 < length a \<Longrightarrow>
   isl (fst (imageToStickerWebp e b opts st))"
  by (simp add: imageToStickerWebp_def Let_def image_try_oversize)

lemma fs_writeFile_ok:
  "writeFile_fault e p b = None \<Longrightarrow>
     fs_writeFile e p b st = (Inr (), st\<lparr>files := (files st)(p \<mapsto> b)\<rparr>)"
  by (simp add: fs_writeFile_def)


lemma run_ffmpeg_fst:
  "fst (run_ffmpeg e J st) =
     (case fst (ffmpeg_run e J (files st)) of
        Some x \<Rightarrow> Inl (Error (''FFmpeg error: '' @ message x))
      | None \<Rightarrow> Inr ())"
  by (simp add: run_ffmpeg_def Let_def split: prod.splits option.splits)

lemma run_ffmpeg_files:
  "files (snd (run_ffmpeg e J st)) =
     (case snd (ffmpeg_run e J (files st)) of
        None \<Rightarrow> files st
      | Some a \<Rightarrow> (files st)(job_output J \<mapsto> a))"
  by (simp add: run_ffmpeg_def Let_def split: prod.splits option.splits)

lemma run_ffmpeg_spawned:
  "spawned (snd (run_ffmpeg e J st)) = spawned st @ [J]"
  by (simp add: run_ffmpeg_def Let_def split: prod.splits option.splits)

lemma video_try_after_write:
  assumes "writeFile_fault e inPath b = None"
  shows "fst (video_try e inPath outPath b mode sz fps st) =
     (case fst (run_ffmpeg e (ffmpeg_command inPath outPath mode sz fps)
                  (st\<lparr>files := (files st)(inPath \<mapsto> b)\<rparr>)) of
        Inl err \<Rightarrow> Inl err
      | Inr _ \<Rightarrow>
          (case fs_readFile outPath
                  (snd (run_ffmpeg e (ffmpeg_command inPath outPath mode sz fps)
                     (st\<lparr>files := (files st)(inPath \<mapsto> b)\<rparr>))) of
             Inl err \<Rightarrow> Inl err
           | Inr w \<Rightarrow> if 1024 * 1024 < length w then Inl (Error animated_too_large) else Inr w))"
proof (cases "run_ffmpeg e (ffmpeg_command inPath outPath mode sz fps)
                  (st\<lparr>files := (files st)(inPath \<mapsto> b)\<rparr>)")
  case (Pair r st2)
  then show ?thesis
    by (cases r; cases "fs_readFile outPath st2")
      (simp_all add: video_try_def fs_writeFile_ok [OF assms])
qed


lemma fs_readFile_Inr: "fs_readFile p st = Inr w \<longleftrightarrow> files st p = Some w"
  by (simp add: fs_readFile_def split: option.splits)


lemma video_try_oversize:
  assumes "writeFile_fault e inPath b = None"
    and "ffmpeg_run e (ffmpeg_command inPath outPath mode sz fps) ((files st)(inPath \<mapsto> b)) = (None, Some a)"
    and "1024 * 1024 < length a"
  shows "fst (video_try e inPath outPath b mode sz fps st) = Inl (Error animated_too_large)"
proof -
  let ?J = "ffmpeg_command inPath outPath mode sz fps"
  let ?st1 = "st\<lparr>files := (files st)(inPath \<mapsto> b)\<rparr>"
  have f: "fst (run_ffmpeg e ?J ?st1) = Inr ()"
    using assms(2) by (simp add: run_ffmpeg_fst)
  have "files (snd (run_ffmpeg e ?J ?st1)) outPath = Some a"
    using assms(2) by (simp add: run_ffmpeg_files ffmpeg_command_def)
  then have rd: "fs_readFile outPath (snd (run_ffmpeg e ?J ?st1)) = Inr a"
    by (simp add: fs_readFile_Inr)
  show ?thesis
    unfolding video_try_after_write [OF assms(1)] using f rd assms(3) by simp
qed

lemma videoToStickerWebp_fst:
  "fst (videoToStickerWebp e d b opts st) =
     (case fst (video_try e (tmpPath e (draw_stem1 d) ''mp4'') (tmpPath e (draw_stem2 d) ''webp'') b
                  (or_default ''cover'' (opt_mode opts)) (or_default 512 (opt_size opts))
                  (or_default 10 (opt_fps opts)) st) of
        Inr w \<Rightarrow> Inr w
      | Inl err \<Rightarrow> Inl (Error (''Falha ao criar figurinha de v'' @ i_acute @ ''deo: '' @ message err)))"
  by (simp add: videoToStickerWebp_def Let_def split: prod.splits sum.splits)

lemma videoToStickerWebp_files:
  "files (snd (videoToStickerWebp e d b opts st)) =
     files (fs_unlink_quiet e (tmpPath e (draw_stem2 d) ''webp'')
       (fs_unlink_quiet e (tmpPath e (draw_stem1 d) ''mp4'')
         (snd (video_try e (tmpPath e (draw_stem1 d) ''mp4'') (tmpPath e (draw_stem2 d) ''webp'') b
                  (or_default ''cover'' (opt_mode opts)) (or_default 512 (opt_size opts))
                  (or_default 10 (opt_fps opts)) st))))"
proof -
  let ?t = "video_try e (tmpPath e (draw_stem1 d) ''mp4'') (tmpPath e (draw_stem2 d) ''webp'') b
      (or_default ''cover'' (opt_mode opts)) (or_default 512 (opt_size opts))
      (or_default 10 (opt_fps opts)) st"
  obtain r st1 where t: "?t = (r, st1)" by (cases ?t)
  show ?thesis unfolding t
    by (cases r) (simp_all add: videoToStickerWebp_def Let_def t files_unlink split: option.splits)
qed

lemma video_try_files:
  "files (snd (video_try e inPath outPath b mode sz fps st)) =
     (case writeFile_fault e inPath b of
        Some (err, left) \<Rightarrow>
          (case left of None \<Rightarrow> files st | Some l \<Rightarrow> (files st)(inPath \<mapsto> l))
      | None \<Rightarrow>
          (case snd (ffmpeg_run e (ffmpeg_command inPath outPath mode sz fps)
                       ((files st)(inPath \<mapsto> b))) of
             None \<Rightarrow> (files st)(inPath \<mapsto> b)
           | Some a \<Rightarrow> (files st)(inPath \<mapsto> b, outPath \<mapsto> a)))"
proof (cases "writeFile_fault e inPath b")
  case (Some x)
  obtain err left where x: "x = (err, left)" by (cases x)
  show ?thesis using Some x
    by (cases left) (simp_all add: video_try_def fs_writeFile_def)
next
  case None
  let ?J = "ffmpeg_command inPath outPath mode sz fps"
  let ?st1 = "st\<lparr>files := (files st)(inPath \<mapsto> b)\<rparr>"
  obtain r2 st2 where f: "run_ffmpeg e ?J ?st1 = (r2, st2)" by (cases "run_ffmpeg e ?J ?st1")
  have o: "job_output ?J = outPath" by (simp add: ffmpeg_command_def)
  have f2: "files st2 =
      (case snd (ffmpeg_run e ?J ((files st)(inPath \<mapsto> b))) of
         None \<Rightarrow> (files st)(inPath \<mapsto> b)
       | Some a \<Rightarrow> (files st)(inPath \<mapsto> b, outPath \<mapsto> a))"
    using run_ffmpeg_files [of e ?J ?st1] f o
    by (cases "snd (ffmpeg_run e ?J ((files st)(inPath \<mapsto> b)))") simp_all
  have "files (snd (video_try e inPath outPath b mode sz fps st)) = files st2"
    using f by (cases r2; cases "fs_readFile outPath st2")
      (simp_all add: video_try_def fs_writeFile_ok [OF None] logger_def)
  then show ?thesis using None f2
    by (cases "snd (ffmpeg_run e ?J ((files st)(inPath \<mapsto> b)))") simp_all
qed

lemma video_try_spawned:
  "spawned (snd (video_try e inPath outPath b mode sz fps st)) =
     (case writeFile_fault e inPath b of
        Some x \<Rightarrow> spawned st
      | None \<Rightarrow> spawned st @ [ffmpeg_command inPath outPath mode sz fps])"
proof (cases "fs_writeFile e inPath b st")
  case (Pair r st1)
  have s1: "spawned st1 = spawned st" using fs_writeFile_quiet [of e inPath b st] Pair by simp
  show ?thesis
  proof (cases "writeFile_fault e inPath b")
    case (Some x)
    obtain err left where x: "x = (err, left)" by (cases x)
    have "r = Inl err" using Pair Some x by (simp add: fs_writeFile_def)
    then show ?thesis using Pair s1 Some by (simp add: video_try_def)
  next
    case None
    then have r: "r = Inr ()" using Pair by (simp add: fs_writeFile_def)
    obtain r2 st2 where f: "run_ffmpeg e (ffmpeg_command inPath outPath mode sz fps) st1 = (r2, st2)"
      by (cases "run_ffmpeg e (ffmpeg_command inPath outPath mode sz fps) st1")
    have s2: "spawned st2 = spawned st @ [ffmpeg_command inPath outPath mode sz fps]"
      using run_ffmpeg_spawned [of e "ffmpeg_command inPath outPath mode sz fps" st1] f s1 by simp
    show ?thesis using Pair r f s2 None
      by (cases r2; cases "fs_readFile outPath st2") (simp_all add: video_try_def)
  qed
qed

lemma videoToStickerWebp_spawned:
  "spawned (snd (videoToStickerWebp e d b opts st)) =
     spawned (snd (video_try e (tmpPath e (draw_stem1 d) ''mp4'') (tmpPath e (draw_stem2 d) ''webp'') b
                  (or_default ''cover'' (opt_mode opts)) (or_default 512 (opt_size opts))
                  (or_default 10 (opt_fps opts)) st))"
proof -
  let ?t = "video_try e (tmpPath e (draw_stem1 d) ''mp4'') (tmpPath e (draw_stem2 d) ''webp'') b
      (or_default ''cover'' (opt_mode opts)) (or_default 512 (opt_size opts))
      (or_default 10 (opt_fps opts)) st"
  obtain r st1 where t: "?t = (r, st1)" by (cases ?t)
  show ?thesis unfolding t by (cases r) (simp_all add: videoToStickerWebp_def Let_def t)
qed

lemma fs_writeFile_unlink_fault:
  "fs_writeFile (e\<lparr>unlink_fault := f\<rparr>) p b st = fs_writeFile e p b st"
  by (simp add: fs_writeFile_def)

lemma run_ffmpeg_unlink_fault:
  "run_ffmpeg (e\<lparr>unlink_fault := f\<rparr>) J st = run_ffmpeg e J st"
  by (simp add: run_ffmpeg_def)

lemma video_try_unlink_fault:
  "video_try (e\<lparr>unlink_fault := f\<rparr>) inPath outPath b mode sz fps st =
     video_try e inPath outPath b mode sz fps st"
  by (simp only: video_try_def fs_writeFile_unlink_fault run_ffmpeg_unlink_fault)


subsection \<open>The filter graph\<close>


lemma filter_cover_512_10:
  "filterComplex ''cover'' 512 10 =
     ''[0:v]scale=512:512:force_original_aspect_ratio=increase,setsar=1,crop=512:512,fps=10[v]''"
  by (simp add: filterComplex_def)



subsection \<open>Temporary files\<close>

lemma sample_paths:
  "tmpPath sample_env (draw_stem1 sample_draws) ''mp4'' = ''/tmp/1000-k3j2.mp4''"
  "tmpPath sample_env (draw_stem2 sample_draws) ''webp'' = ''/tmp/1000-p9x1.webp''"
  by (simp_all add: tmpPath_def sample_env_def sample_draws_def)

lemma sample_video_returns:
  assumes "writeFile_fault e (tmpPath e (draw_stem1 d) ''mp4'') b = None"
    and "ffmpeg_run e
           (ffmpeg_command (tmpPath e (draw_stem1 d) ''mp4'') (tmpPath e (draw_stem2 d) ''webp'')
              (or_default ''cover'' (opt_mode opts)) (or_default 512 (opt_size opts))
              (or_default 10 (opt_fps opts)))
           ((files st)(tmpPath e (draw_stem1 d) ''mp4'' \<mapsto> b)) = (None, Some a)"
    and "length a \<le> 1024 * 1024"
  shows "fst (videoToStickerWebp e d b opts st) = Inr a"
proof -
  let ?in = "tmpPath e (draw_stem1 d) ''mp4''"
  let ?out = "tmpPath e (draw_stem2 d) ''webp''"
  let ?J = "ffmpeg_command ?in ?out (or_default ''cover'' (opt_mode opts))
      (or_default 512 (opt_size opts)) (or_default 10 (opt_fps opts))"
  let ?st1 = "st\<lparr>files := (files st)(?in \<mapsto> b)\<rparr>"
  have f: "fst (run_ffmpeg e ?J ?st1) = Inr ()"
    using assms(2) by (simp add: run_ffmpeg_fst)
  have "files (snd (run_ffmpeg e ?J ?st1)) ?out = Some a"
    using assms(2) by (simp add: run_ffmpeg_files ffmpeg_command_def)
  then have rd: "fs_readFile ?out (snd (run_ffmpeg e ?J ?st1)) = Inr a"
    by (simp add: fs_readFile_Inr)
  have "fst (video_try e ?in ?out b (or_default ''cover'' (opt_mode opts))
      (or_default 512 (opt_size opts)) (or_default 10 (opt_fps opts)) st) = Inr a"
    unfolding video_try_after_write [OF assms(1)] using f rd assms(3) by simp
  then show ?thesis unfolding videoToStickerWebp_fst by simp
qed

text \<open>
  Claim C7, as amended. For every environment, input, options and state, that is on
  every exit path of the video path (a buffer returned, the size-limit failure, a failed
  write, a failed \<open>ffmpeg\<close>, a missing output file): the call attempts to unlink the
  temporary input file and the temporary output file before it completes, so each of the
  two paths holds no file afterwards when the file system lets it be unlinked, whatever
  happens to the other; no other path is touched; and what the file system answers to the
  two unlinks never changes how the call settles (a rejection is swallowed).
\<close>

theorem video_temp_files_unlinked:
  "(unlink_fault e (tmpPath e (draw_stem1 d) ''mp4'') = None \<longrightarrow>
      files (snd (videoToStickerWebp e d videoBuffer opts st)) (tmpPath e (draw_stem1 d) ''mp4'') =
        None) \<and>
   (unlink_fault e (tmpPath e (draw_stem2 d) ''webp'') = None \<longrightarrow>
      files (snd (videoToStickerWebp e d videoBuffer opts st)) (tmpPath e (draw_stem2 d) ''webp'') =
        None) \<and>
   (\<forall>p. p \<noteq> tmpPath e (draw_stem1 d) ''mp4'' \<and> p \<noteq> tmpPath e (draw_stem2 d) ''webp'' \<longrightarrow>
      files (snd (videoToStickerWebp e d videoBuffer opts st)) p = files st p) \<and>
   fst (videoToStickerWebp (e\<lparr>unlink_fault := f\<rparr>) d videoBuffer opts st) =
     fst (videoToStickerWebp e d videoBuffer opts st)"
proof -
  let ?in = "tmpPath e (draw_stem1 d) ''mp4''"
  let ?out = "tmpPath e (draw_stem2 d) ''webp''"
  let ?S = "snd (videoToStickerWebp e d videoBuffer opts st)"
  have p1: "unlink_fault e ?in = None \<longrightarrow> files ?S ?in = None"
    by (simp add: videoToStickerWebp_files files_unlink split: option.splits)
  have p2: "unlink_fault e ?out = None \<longrightarrow> files ?S ?out = None"
    by (simp add: videoToStickerWebp_files files_unlink split: option.splits)
  have p3: "\<forall>p. p \<noteq> ?in \<and> p \<noteq> ?out \<longrightarrow> files ?S p = files st p"
    by (simp add: videoToStickerWebp_files files_unlink video_try_files
        split: option.splits prod.splits)
  have t: "tmpPath (e\<lparr>unlink_fault := f\<rparr>) = tmpPath e"
    by (simp add: tmpPath_def fun_eq_iff)
  have p4: "fst (videoToStickerWebp (e\<lparr>unlink_fault := f\<rparr>) d videoBuffer opts st) =
     fst (videoToStickerWebp e d videoBuffer opts st)"
    by (simp only: videoToStickerWebp_fst t video_try_unlink_fault)
  show ?thesis by (rule conjI [OF p1 conjI [OF p2 conjI [OF p3 p4]]])
qed

theorem video_temp_files_unlinked_witness:
  "fst (videoToStickerWebp sample_env sample_draws ''mp4 bytes'' contain_512 init_state) =
     Inr ''animated webp bytes'' \<and>
   spawned (snd (videoToStickerWebp sample_env sample_draws ''mp4 bytes'' contain_512 init_state)) =
     [ffmpeg_command ''/tmp/1000-k3j2.mp4'' ''/tmp/1000-p9x1.webp'' ''contain'' 512 10] \<and>
   files (snd (videoToStickerWebp sample_env sample_draws ''mp4 bytes'' contain_512 init_state))
     ''/tmp/1000-k3j2.mp4'' = None \<and>
   files (snd (videoToStickerWebp sample_env sample_draws ''mp4 bytes'' contain_512 init_state))
     ''/tmp/1000-p9x1.webp'' = None"
proof -
  have r: "fst (videoToStickerWebp sample_env sample_draws ''mp4 bytes'' contain_512 init_state) =
      Inr ''animated webp bytes''"
    by (rule sample_video_returns) (simp_all add: sample_env_def)
  have s: "spawned (snd (videoToStickerWebp sample_env sample_draws ''mp4 bytes'' contain_512
      init_state)) = [ffmpeg_command ''/tmp/1000-k3j2.mp4'' ''/tmp/1000-p9x1.webp'' ''contain'' 512 10]"
    unfolding videoToStickerWebp_spawned video_try_spawned sample_paths
    by (simp add: sample_env_def contain_512_def or_default_def init_state_def)
  have u: "unlink_fault sample_env (tmpPath sample_env (draw_stem1 sample_draws) ''mp4'') = None"
    "unlink_fault sample_env (tmpPath sample_env (draw_stem2 sample_draws) ''webp'') = None"
    by (simp_all add: sample_env_def)
  from video_temp_files_unlinked [of sample_env sample_draws "''mp4 bytes''" contain_512 init_state] u
  have "files (snd (videoToStickerWebp sample_env sample_draws ''mp4 bytes'' contain_512 init_state))
      (tmpPath sample_env (draw_stem1 sample_draws) ''mp4'') = None \<and>
    files (snd (videoToStickerWebp sample_env sample_draws ''mp4 bytes'' contain_512 init_state))
      (tmpPath sample_env (draw_stem2 sample_draws) ''webp'') = None"
    by blast
  with r s show ?thesis by (simp add: sample_paths)
qed

text \<open>
  The claim as stated fails when the file system does not let the files be unlinked: the
  call returns its buffer, both rejections are swallowed, and both temporary files are
  still there when the call has completed.
\<close>

theorem rejected_unlink_leaves_temp_files:
  "fst (videoToStickerWebp locked_env sample_draws ''mp4 bytes'' contain_512 init_state) =
     Inr ''animated webp bytes'' \<and>
   files (snd (videoToStickerWebp locked_env sample_draws ''mp4 bytes'' contain_512 init_state))
     ''/tmp/1000-k3j2.mp4'' = Some ''mp4 bytes'' \<and>
   files (snd (videoToStickerWebp locked_env sample_draws ''mp4 bytes'' contain_512 init_state))
     ''/tmp/1000-p9x1.webp'' = Some ''animated webp bytes''"
proof -
  have p: "tmpPath locked_env (draw_stem1 sample_draws) ''mp4'' = ''/tmp/1000-k3j2.mp4''"
    "tmpPath locked_env (draw_stem2 sample_draws) ''webp'' = ''/tmp/1000-p9x1.webp''"
    by (simp_all add: tmpPath_def locked_env_def sample_env_def sample_draws_def)
  have r: "fst (videoToStickerWebp locked_env sample_draws ''mp4 bytes'' contain_512 init_state) =
      Inr ''animated webp bytes''"
    by (rule sample_video_returns) (simp_all add: locked_env_def sample_env_def)
  have f: "files (snd (videoToStickerWebp locked_env sample_draws ''mp4 bytes'' contain_512
      init_state)) =
      [''/tmp/1000-k3j2.mp4'' \<mapsto> ''mp4 bytes'', ''/tmp/1000-p9x1.webp'' \<mapsto> ''animated webp bytes'']"
    unfolding videoToStickerWebp_files files_unlink video_try_files p
    by (simp add: locked_env_def sample_env_def init_state_def)
  show ?thesis using r by (simp add: f)
qed

subsection \<open>The size ceiling\<close>

text \<open>
  Claim C3, evaluated where the two entry points meet an artifact of 1 MiB and one byte.
  The image path fails, but not with a size error: the size-limit error is thrown inside
  the \<open>try\<close> of \<open>imageToStickerWebp\<close>, whose \<open>catch\<close> logs it and throws the generic
  "Falha ao processar imagem para figurinha" in its place. The video path, given an
  artifact of the same size, rethrows with the cause appended, so its error carries the
  size-limit message.
\<close>

theorem image_oversize_is_not_a_size_error:
  "fst (imageToStickerWebp oversize_env ''jpeg bytes'' contain_512 init_state) =
     Inl (Error ''Falha ao processar imagem para figurinha'') \<and>
   is_size_error (Error ''Falha ao processar imagem para figurinha'') = False \<and>
   logged (snd (imageToStickerWebp oversize_env ''jpeg bytes'' contain_512 init_state)) =
     [(Err, ''Erro ao criar figurinha de imagem: '' @ static_too_large)] \<and>
   fst (videoToStickerWebp big_video_env sample_draws ''mp4 bytes'' contain_512 init_state) =
     Inl (Error (''Falha ao criar figurinha de v'' @ i_acute @ ''deo: '' @ animated_too_large)) \<and>
   is_size_error
     (Error (''Falha ao criar figurinha de v'' @ i_acute @ ''deo: '' @ animated_too_large)) = True"
proof -
  have t: "image_try oversize_env ''jpeg bytes'' 512 ''contain'' = Inl (Error static_too_large)"
    by (rule image_try_oversize [of _ _ _ _ "replicate 1048577 (CHR 0x00)"])
      (simp_all add: oversize_env_def sample_env_def)
  have i: "imageToStickerWebp oversize_env ''jpeg bytes'' contain_512 init_state =
      (Inl (Error ''Falha ao processar imagem para figurinha''),
       logger Err (''Erro ao criar figurinha de imagem: '' @ static_too_large) init_state)"
    by (simp add: imageToStickerWebp_def Let_def contain_512_def or_default_def t)
  have n: "is_size_error (Error ''Falha ao processar imagem para figurinha'') = False"
    by (simp add: is_size_error_def endsWith_def static_too_large_def animated_too_large_def
        a_acute_def)
  have l: "logged (snd (imageToStickerWebp oversize_env ''jpeg bytes'' contain_512 init_state)) =
      [(Err, ''Erro ao criar figurinha de imagem: '' @ static_too_large)]"
    unfolding i by (simp add: init_state_def)
  let ?in = "tmpPath big_video_env (draw_stem1 sample_draws) ''mp4''"
  let ?out = "tmpPath big_video_env (draw_stem2 sample_draws) ''webp''"
  have "fst (video_try big_video_env ?in ?out ''mp4 bytes'' (or_default ''cover'' (opt_mode contain_512))
      (or_default 512 (opt_size contain_512)) (or_default 10 (opt_fps contain_512)) init_state) =
      Inl (Error animated_too_large)"
    by (rule video_try_oversize [of _ _ _ _ _ _ _ _ "replicate 1048577 (CHR 0x00)"])
      (simp_all add: big_video_env_def sample_env_def)
  then have v: "fst (videoToStickerWebp big_video_env sample_draws ''mp4 bytes'' contain_512
      init_state) =
      Inl (Error (''Falha ao criar figurinha de v'' @ i_acute @ ''deo: '' @ animated_too_large))"
    unfolding videoToStickerWebp_fst by simp
  have s: "is_size_error
      (Error (''Falha ao criar figurinha de v'' @ i_acute @ ''deo: '' @ animated_too_large)) = True"
    using endsWith_append [of "''Falha ao criar figurinha de v'' @ i_acute @ ''deo: ''" animated_too_large]
    by (simp add: is_size_error_def)
  from i n l v s show ?thesis by simp
qed

subsection \<open>The ffmpeg command\<close>







section \<open>Media extraction\<close>

lemma download_first_types:
  "download_first e c media_types = fetch_attachment e (image_then_video c)"
  by (simp add: media_types_def image_then_video_def fetch_attachment_def
      split: option.splits sum.splits)

text \<open>
  Claim C4, as amended. For every inbound message with a body, media extraction looks in
  one message object only: the quoted message when \<open>extendedTextMessage\<close> carries one,
  else the message itself. In that object it takes the image if there is one, else the
  video, else nothing; the attachment taken is downloaded and checked against 10 MiB.
  So a quoted message, when present, is preferred over the direct attachments and hides
  them.
\<close>

theorem media_extraction_order:
  assumes "msg_message msg = Some c"
  shows "getMediaBuffer e msg =
     fetch_attachment e
       (case quoted_of c of None \<Rightarrow> image_then_video c | Some q \<Rightarrow> image_then_video q)"
  using assms
  by (simp add: getMediaBuffer_def quoted_of_def download_first_types Let_def split: option.splits)

theorem media_extraction_order_witness:
  "getMediaBuffer keyed_env (message_with image_replying_to_video) =
     fetch_attachment keyed_env (Some (\<lparr>caption = None, mediaKey = 2\<rparr>, ''video''))"
proof -
  have m: "msg_message (message_with image_replying_to_video) = Some image_replying_to_video"
    by (simp add: message_with_def)
  show ?thesis
    using media_extraction_order [OF m, of keyed_env]
    by (simp add: quoted_of_def image_replying_to_video_def image_then_video_def)
qed

text \<open>
  The claim as stated fails: for a message that has an image of its own and quotes a
  message with a video, the claimed order selects the direct image, and the code returns
  the quoted video.
\<close>

theorem quoted_hides_direct_attachment:
  "claimed_attachment image_replying_to_video = Some (\<lparr>caption = None, mediaKey = 1\<rparr>, ''image'') \<and>
   getMediaBuffer keyed_env (message_with image_replying_to_video) =
     Inr (Some \<lparr>media_buffer = ''bytes of the quoted video'', media_kind = ''video''\<rparr>) \<and>
   getMediaBuffer keyed_env (message_with image_replying_to_video) \<noteq>
     fetch_attachment keyed_env (claimed_attachment image_replying_to_video)"
  by (simp add: claimed_attachment_def image_then_video_def image_replying_to_video_def
      getMediaBuffer_def message_with_def media_types_def keyed_env_def sample_env_def
      fetch_attachment_def quoted_of_def)

section \<open>The sticker commands\<close>

subsection \<open>The sticker path does not read the log\<close>

lemma same_effects_refl [simp]: "same_effects st st"
  by (simp add: same_effects_def)

lemma same_effects_logger [simp]:
  "same_effects (logger lv x st) st' = same_effects st st'"
  "same_effects st (logger lv x st') = same_effects st st'"
  by (simp_all add: same_effects_def logger_def)

lemma same_effects_send:
  "same_effects st st' \<Longrightarrow>
     fst (sendMessage e j p st) = fst (sendMessage e j p st') \<and>
     same_effects (snd (sendMessage e j p st)) (snd (sendMessage e j p st'))"
  by (simp add: same_effects_def sendMessage_def split: option.splits)

lemma same_effects_unlink:
  "same_effects st st' \<Longrightarrow> same_effects (fs_unlink_quiet e p st) (fs_unlink_quiet e p st')"
  by (simp add: same_effects_def fs_unlink_quiet_def split: option.splits)

lemma same_effects_rateLimits:
  "same_effects st st' \<Longrightarrow> same_effects (st\<lparr>rateLimits := rl\<rparr>) (st'\<lparr>rateLimits := rl\<rparr>)"
  by (simp add: same_effects_def)

lemma same_effects_writeFile:
  "same_effects st st' \<Longrightarrow>
     fst (fs_writeFile e p b st) = fst (fs_writeFile e p b st') \<and>
     same_effects (snd (fs_writeFile e p b st)) (snd (fs_writeFile e p b st'))"
  by (auto simp: same_effects_def fs_writeFile_def split: option.splits prod.splits)

lemma same_effects_run_ffmpeg:
  "same_effects st st' \<Longrightarrow>
     fst (run_ffmpeg e J st) = fst (run_ffmpeg e J st') \<and>
     same_effects (snd (run_ffmpeg e J st)) (snd (run_ffmpeg e J st'))"
  by (auto simp: same_effects_def run_ffmpeg_def Let_def split: option.splits prod.splits)

lemma same_effects_readFile:
  "same_effects st st' \<Longrightarrow> fs_readFile p st = fs_readFile p st'"
  by (simp add: same_effects_def fs_readFile_def)

lemma same_effects_video_try:
  assumes "same_effects st st'"
  shows "fst (video_try e i out b mode sz fps st) = fst (video_try e i out b mode sz fps st') \<and>
     same_effects (snd (video_try e i out b mode sz fps st)) (snd (video_try e i out b mode sz fps st'))"
proof -
  obtain r1 s1 where w1: "fs_writeFile e i b st = (r1, s1)" by (cases "fs_writeFile e i b st")
  obtain r1' s1' where w2: "fs_writeFile e i b st' = (r1', s1')" by (cases "fs_writeFile e i b st'")
  from same_effects_writeFile [OF assms, of e i b] w1 w2
  have e1: "r1' = r1" and q1: "same_effects s1 s1'" by simp_all
  let ?J = "ffmpeg_command i out mode sz fps"
  obtain r2 s2 where f1: "run_ffmpeg e ?J s1 = (r2, s2)" by (cases "run_ffmpeg e ?J s1")
  obtain r2' s2' where f2: "run_ffmpeg e ?J s1' = (r2', s2')" by (cases "run_ffmpeg e ?J s1'")
  from same_effects_run_ffmpeg [OF q1, of e ?J] f1 f2
  have e2: "r2' = r2" and q2: "same_effects s2 s2'" by simp_all
  have rd: "fs_readFile out s2 = fs_readFile out s2'" by (rule same_effects_readFile [OF q2])
  show ?thesis
    using w1 w2 e1 q1 f1 f2 e2 q2 rd
    by (cases r1; cases r2; cases "fs_readFile out s2'") (simp_all add: video_try_def)
qed

lemma same_effects_video:
  assumes "same_effects st st'"
  shows "fst (videoToStickerWebp e d b opts st) = fst (videoToStickerWebp e d b opts st') \<and>
     same_effects (snd (videoToStickerWebp e d b opts st)) (snd (videoToStickerWebp e d b opts st'))"
proof -
  let ?i = "tmpPath e (draw_stem1 d) ''mp4''"
  let ?o = "tmpPath e (draw_stem2 d) ''webp''"
  let ?t = "\<lambda>s. video_try e ?i ?o b (or_default ''cover'' (opt_mode opts))
      (or_default 512 (opt_size opts)) (or_default 10 (opt_fps opts)) s"
  obtain r s1 where t1: "?t st = (r, s1)" by (cases "?t st")
  obtain r' s1' where t2: "?t st' = (r', s1')" by (cases "?t st'")
  from same_effects_video_try [OF assms, of e ?i ?o b "or_default ''cover'' (opt_mode opts)"
      "or_default 512 (opt_size opts)" "or_default 10 (opt_fps opts)"] t1 t2
  have "r' = r" and q: "same_effects s1 s1'" by simp_all
  then show ?thesis using t1 t2
    by (cases r) (simp_all add: videoToStickerWebp_def Let_def same_effects_unlink)
qed

lemma same_effects_image:
  assumes "same_effects st st'"
  shows "fst (imageToStickerWebp e b opts st) = fst (imageToStickerWebp e b opts st') \<and>
     same_effects (snd (imageToStickerWebp e b opts st)) (snd (imageToStickerWebp e b opts st'))"
  using assms by (simp add: imageToStickerWebp_def Let_def split: sum.splits)

lemma same_effects_sticker_for:
  assumes "same_effects st st'"
  shows "fst (sticker_for e d m st) = fst (sticker_for e d m st') \<and>
     same_effects (snd (sticker_for e d m st)) (snd (sticker_for e d m st'))"
  using assms same_effects_image same_effects_video by (simp add: sticker_for_def)

lemma same_effects_catch:
  "same_effects st st' \<Longrightarrow>
     fst (figurinha_catch e jid err st) = fst (figurinha_catch e jid err st') \<and>
     same_effects (snd (figurinha_catch e jid err st)) (snd (figurinha_catch e jid err st'))"
  using same_effects_send [of "logger Err (''Erro ao enviar figurinha: '' @ message err) st"
      "logger Err (''Erro ao enviar figurinha: '' @ message err) st'" e jid]
  by (simp add: figurinha_catch_def)

lemma same_effects_enviar:
  assumes "same_effects st st'"
  shows "fst (enviarFigurinha e d jid m st) = fst (enviarFigurinha e d jid m st') \<and>
     same_effects (snd (enviarFigurinha e d jid m st)) (snd (enviarFigurinha e d jid m st'))"
proof -
  obtain r s1 where t1: "sticker_for e d m st = (r, s1)" by (cases "sticker_for e d m st")
  obtain r' s1' where t2: "sticker_for e d m st' = (r', s1')" by (cases "sticker_for e d m st'")
  from same_effects_sticker_for [OF assms, of e d m] t1 t2
  have rr: "r' = r" and q: "same_effects s1 s1'" by simp_all
  show ?thesis
  proof (cases r)
    case (Inl err)
    then show ?thesis using t1 t2 rr same_effects_catch [OF q, of e jid err]
      by (simp add: enviarFigurinha_def)
  next
    case (Inr webp)
    let ?p = "Sticker webp ''image/webp'' (media_kind m = ''video'')"
    obtain r2 s2 where u1: "sendMessage e jid ?p s1 = (r2, s2)" by (cases "sendMessage e jid ?p s1")
    obtain r2' s2' where u2: "sendMessage e jid ?p s1' = (r2', s2')"
      by (cases "sendMessage e jid ?p s1'")
    from same_effects_send [OF q, of e jid ?p] u1 u2
    have rr2: "r2' = r2" and q2: "same_effects s2 s2'" by simp_all
    show ?thesis
    proof (cases r2)
      case (Inl err)
      then show ?thesis using t1 t2 rr Inr u1 u2 rr2 same_effects_catch [OF q2, of e jid err]
        by (simp add: enviarFigurinha_def)
    next
      case (Inr u)
      then show ?thesis using t1 t2 rr \<open>r = Inr webp\<close> u1 u2 rr2 q2
        by (simp add: enviarFigurinha_def)
    qed
  qed
qed

lemma same_effects_handleSticker:
  assumes "same_effects st st'" and "getMediaBuffer e msg = getMediaBuffer e msg'"
  shows "fst (handleSticker e d jid sender msg st) = fst (handleSticker e d jid sender' msg' st') \<and>
     same_effects (snd (handleSticker e d jid sender msg st))
       (snd (handleSticker e d jid sender' msg' st'))"
  using assms same_effects_send [OF assms(1)] same_effects_enviar [OF assms(1)]
  by (simp add: handleSticker_def split: sum.splits option.splits)

lemma same_effects_guarded_sticker:
  assumes "same_effects st st'" and "getMediaBuffer e msg = getMediaBuffer e msg'"
    and "cmd_handler cmd = HandleSticker" and "cmd_handler cmd' = HandleSticker"
  shows "fst (guarded_call cmd e d jid sender msg texto st) =
         fst (guarded_call cmd' e d jid sender msg' texto' st') \<and>
     same_effects (snd (guarded_call cmd e d jid sender msg texto st))
       (snd (guarded_call cmd' e d jid sender msg' texto' st'))"
proof -
  have rl: "rateLimits st' = rateLimits st" using assms(1) by (simp add: same_effects_def)
  obtain r rl' where c: "checkRateLimit (draw_now d) sender (rateLimits st) = (r, rl')"
    by (cases "checkRateLimit (draw_now d) sender (rateLimits st)")
  show ?thesis
  proof (cases r)
    case (Inl err)
    then show ?thesis using c rl assms(1)
      by (simp add: guarded_call_def same_effects_rateLimits)
  next
    case (Inr u)
    then show ?thesis
      using c rl assms(3,4)
        same_effects_handleSticker [OF same_effects_rateLimits [OF assms(1), of rl'] assms(2),
          of d jid sender sender]
      by (simp add: guarded_call_def call_handler_def)
  qed
qed

lemma find_sticker_names:
  "find_command ''gifsticker'' = Some \<lparr>cmd_handler = HandleSticker, cmd_aliases = None\<rparr>"
  "find_command ''sticker'' = Some \<lparr>cmd_handler = HandleSticker, cmd_aliases = Some [''fig'', ''s'']\<rparr>"
  "find_command ''fig'' = Some \<lparr>cmd_handler = HandleSticker, cmd_aliases = Some [''fig'', ''s'']\<rparr>"
  "find_command ''s'' = Some \<lparr>cmd_handler = HandleSticker, cmd_aliases = Some [''fig'', ''s'']\<rparr>"
  by (simp_all add: find_command_def commands_def)


lemma handleSticker_image:
  assumes "getMediaBuffer e msg = Inr (Some m)" and "media_kind m = ''image''"
    and "sharp_toBuffer e (media_buffer m) (sharp_request 512 ''contain'') = Inr webp"
    and "length webp \<le> 1024 * 1024"
    and "send_fault e (send_calls st) jid (Sticker webp ''image/webp'' False) = None"
  shows "fst (handleSticker e d jid sender msg st) = Inr () \<and>
     sent (snd (handleSticker e d jid sender msg st)) =
       sent st @ [(jid, Sticker webp ''image/webp'' False)]"
  using assms
  by (simp add: handleSticker_def enviarFigurinha_def sticker_for_def imageToStickerWebp_def
      image_try_def or_default_def Let_def logger_def sendMessage_def)

text \<open>
  Claim C10. The token \<open>gifsticker\<close> and the tokens \<open>sticker\<close>, \<open>fig\<close>, \<open>s\<close> resolve to
  commands with the same handler, \<open>handleSticker\<close>. So for two events that differ in the
  command token only (same chat, same sender, same attachment), one with \<open>gifsticker\<close>
  and one with \<open>sticker\<close> or an alias, processed from the same state: the callback
  settles the same way and the two resulting states have the same effects (the same
  payloads sent, the same rate-limit map, cache, files and commands run); only logged
  lines name the command and quote the text. In particular, when the attachment is an
  image, the rate limiter lets the call pass, \<open>sharp\<close> answers with a buffer of at most
  1 MiB and the transport accepts the send, the callback of the \<open>gifsticker\<close> event
  returns and the one payload the event sends is that buffer as a sticker with
  \<open>isAnimated = false\<close>; the other event sends the same.
\<close>

theorem gifsticker_is_sticker:
  assumes "msg_message msg1 = Some c1"
    and "match_command (message_text c1) = Some tok1"
    and "toLowerCase e tok1 = ''gifsticker''"
    and "msg_message msg2 = Some c2"
    and "match_command (message_text c2) = Some tok2"
    and "List.member [''sticker'', ''fig'', ''s''] (toLowerCase e tok2)"
    and "key_remoteJid msg1 = key_remoteJid msg2"
    and "sender_of msg1 = sender_of msg2"
    and "getMediaBuffer e msg1 = getMediaBuffer e msg2"
  shows "map_option cmd_handler (find_command (toLowerCase e tok1)) = Some HandleSticker \<and>
     map_option cmd_handler (find_command (toLowerCase e tok2)) = Some HandleSticker \<and>
     fst (on_messages_upsert e d (msg1 # others1) st) =
       fst (on_messages_upsert e d (msg2 # others2) st) \<and>
     same_effects (snd (on_messages_upsert e d (msg1 # others1) st))
       (snd (on_messages_upsert e d (msg2 # others2) st)) \<and>
     (\<forall>m rl webp.
        getMediaBuffer e msg1 = Inr (Some m) \<and> media_kind m = ''image'' \<and>
        checkRateLimit (draw_now d) (sender_of msg1) (rateLimits st) = (Inr (), rl) \<and>
        sharp_toBuffer e (media_buffer m) (sharp_request 512 ''contain'') = Inr webp \<and>
        length webp \<le> 1024 * 1024 \<and>
        send_fault e (send_calls st) (key_remoteJid msg1) (Sticker webp ''image/webp'' False) = None \<longrightarrow>
        fst (on_messages_upsert e d (msg1 # others1) st) = Inr () \<and>
        sent (snd (on_messages_upsert e d (msg1 # others1) st)) =
          sent st @ [(key_remoteJid msg1, Sticker webp ''image/webp'' False)] \<and>
        sent (snd (on_messages_upsert e d (msg2 # others2) st)) =
          sent st @ [(key_remoteJid msg1, Sticker webp ''image/webp'' False)])"
proof -
  obtain cmd1 where f1: "find_command (toLowerCase e tok1) = Some cmd1"
    and h1: "cmd_handler cmd1 = HandleSticker"
    using assms(3) by (simp add: find_sticker_names)
  obtain cmd2 where f2: "find_command (toLowerCase e tok2) = Some cmd2"
    and h2: "cmd_handler cmd2 = HandleSticker"
    using assms(6) by (auto simp: find_sticker_names)
  let ?jid = "key_remoteJid msg1"
  let ?sender = "sender_of msg1"
  let ?s1 = "logger Info (received_line ?jid ?sender (message_text c1)) st"
  let ?s2 = "logger Info (received_line ?jid ?sender (message_text c2)) st"
  let ?g1 = "guarded_call cmd1 e d ?jid ?sender msg1 (message_text c1) ?s1"
  let ?g2 = "guarded_call cmd2 e d ?jid ?sender msg2 (message_text c2) ?s2"
  let ?R1 = "on_messages_upsert e d (msg1 # others1) st"
  let ?R2 = "on_messages_upsert e d (msg2 # others2) st"
  have q: "same_effects ?s1 ?s2" by simp
  from same_effects_guarded_sticker [OF q assms(9) h1 h2, of d ?jid ?sender]
  have g: "fst ?g1 = fst ?g2" "same_effects (snd ?g1) (snd ?g2)" by simp_all
  have u1: "?R1 =
      (case ?g1 of (Inr _, st2) \<Rightarrow> (Inr (), st2)
       | (Inl err, st2) \<Rightarrow> sendMessage e ?jid (failure_reply err)
            (logger Err (command_failed_line (toLowerCase e tok1) err) st2))"
    by (rule on_messages_upsert_resolved [OF assms(1,2) f1])
  have u2: "?R2 =
      (case ?g2 of (Inr _, st2) \<Rightarrow> (Inr (), st2)
       | (Inl err, st2) \<Rightarrow> sendMessage e ?jid (failure_reply err)
            (logger Err (command_failed_line (toLowerCase e tok2) err) st2))"
    unfolding assms(7) assms(8) by (rule on_messages_upsert_resolved [OF assms(4,5) f2])
  obtain r1 t1 where c1: "?g1 = (r1, t1)" by (cases ?g1)
  obtain r2 t2 where c2: "?g2 = (r2, t2)" by (cases ?g2)
  from g c1 c2 have rr: "r2 = r1" and tt: "same_effects t1 t2" by simp_all
  have r: "fst ?R1 = fst ?R2 \<and> same_effects (snd ?R1) (snd ?R2)"
  proof (cases r1)
    case (Inr u)
    then show ?thesis unfolding u1 u2 c1 c2 using rr tt by simp
  next
    case (Inl err)
    have "same_effects (logger Err (command_failed_line (toLowerCase e tok1) err) t1)
        (logger Err (command_failed_line (toLowerCase e tok2) err) t2)"
      using tt by simp
    from same_effects_send [OF this, of e ?jid "failure_reply err"] Inl rr
    show ?thesis unfolding u1 u2 c1 c2 by simp
  qed
  have i: "\<forall>m rl webp.
        getMediaBuffer e msg1 = Inr (Some m) \<and> media_kind m = ''image'' \<and>
        checkRateLimit (draw_now d) ?sender (rateLimits st) = (Inr (), rl) \<and>
        sharp_toBuffer e (media_buffer m) (sharp_request 512 ''contain'') = Inr webp \<and>
        length webp \<le> 1024 * 1024 \<and>
        send_fault e (send_calls st) ?jid (Sticker webp ''image/webp'' False) = None \<longrightarrow>
        fst ?R1 = Inr () \<and>
        sent (snd ?R1) = sent st @ [(?jid, Sticker webp ''image/webp'' False)] \<and>
        sent (snd ?R2) = sent st @ [(?jid, Sticker webp ''image/webp'' False)]"
  proof (intro allI impI)
    fix m rl webp
    assume a: "getMediaBuffer e msg1 = Inr (Some m) \<and> media_kind m = ''image'' \<and>
        checkRateLimit (draw_now d) ?sender (rateLimits st) = (Inr (), rl) \<and>
        sharp_toBuffer e (media_buffer m) (sharp_request 512 ''contain'') = Inr webp \<and>
        length webp \<le> 1024 * 1024 \<and>
        send_fault e (send_calls st) ?jid (Sticker webp ''image/webp'' False) = None"
    let ?t = "?s1\<lparr>rateLimits := rl\<rparr>"
    have sc: "send_calls ?t = send_calls st" and se: "sent ?t = sent st"
      by (simp_all add: logger_def)
    have k: "checkRateLimit (draw_now d) ?sender (rateLimits ?s1) = (Inr (), rl)"
      using a by (simp add: logger_def)
    have g1: "?g1 = handleSticker e d ?jid ?sender msg1 ?t"
      using k h1 by (simp add: guarded_call_def call_handler_def)
    from a have a1: "getMediaBuffer e msg1 = Inr (Some m)" and a2: "media_kind m = ''image''"
      and a3: "sharp_toBuffer e (media_buffer m) (sharp_request 512 ''contain'') = Inr webp"
      and a4: "length webp \<le> 1024 * 1024"
      and a5: "send_fault e (send_calls ?t) ?jid (Sticker webp ''image/webp'' False) = None"
      by (simp_all add: logger_def)
    from handleSticker_image [OF a1 a2 a3 a4 a5, of d ?sender]
    have hs: "fst (handleSticker e d ?jid ?sender msg1 ?t) = Inr ()"
      "sent (snd (handleSticker e d ?jid ?sender msg1 ?t)) =
         sent st @ [(?jid, Sticker webp ''image/webp'' False)]"
      using se by simp_all
    from hs c1 g1 have r1: "r1 = Inr ()" and st1: "sent t1 = sent st @ [(?jid, Sticker webp ''image/webp'' False)]"
      by simp_all
    have R1: "?R1 = (Inr (), t1)" unfolding u1 c1 using r1 by simp
    have "sent (snd ?R2) = sent (snd ?R1)" using r by (simp add: same_effects_def)
    with R1 st1
    show "fst ?R1 = Inr () \<and>
        sent (snd ?R1) = sent st @ [(?jid, Sticker webp ''image/webp'' False)] \<and>
        sent (snd ?R2) = sent st @ [(?jid, Sticker webp ''image/webp'' False)]"
      by simp
  qed
  have n: "map_option cmd_handler (find_command (toLowerCase e tok1)) = Some HandleSticker \<and>
     map_option cmd_handler (find_command (toLowerCase e tok2)) = Some HandleSticker"
    using f1 h1 f2 h2 by simp
  show ?thesis by (rule conjI [OF conjunct1 [OF n] conjI [OF conjunct2 [OF n]
      conjI [OF conjunct1 [OF r] conjI [OF conjunct2 [OF r] i]]]])
qed

lemma match_gifsticker: "match_command ''!gifsticker'' = Some ''gifsticker''"
  by code_simp

lemma match_s: "match_command ''!s'' = Some ''s''"
  by code_simp

theorem gifsticker_is_sticker_witness:
  "fst (on_messages_upsert sample_env sample_draws [captioned_image ''!gifsticker''] init_state) =
     Inr () \<and>
   sent (snd (on_messages_upsert sample_env sample_draws [captioned_image ''!gifsticker'']
                init_state)) =
     [(''5511999999999@s.whatsapp.net'', Sticker ''webp bytes'' ''image/webp'' False)] \<and>
   sent (snd (on_messages_upsert sample_env sample_draws [captioned_image ''!s''] init_state)) =
     [(''5511999999999@s.whatsapp.net'', Sticker ''webp bytes'' ''image/webp'' False)] \<and>
   same_effects
     (snd (on_messages_upsert sample_env sample_draws [captioned_image ''!gifsticker''] init_state))
     (snd (on_messages_upsert sample_env sample_draws [captioned_image ''!s''] init_state))"
proof -
  let ?c = "\<lambda>txt. Content None None (Some \<lparr>caption = Some txt, mediaKey = 1\<rparr>) None"
  let ?m = "\<lparr>media_buffer = ''jpeg bytes'', media_kind = ''image''\<rparr>"
  have m: "\<And>txt. msg_message (captioned_image txt) = Some (?c txt)"
    by (simp add: captioned_image_def)
  have t: "\<And>txt k. txt \<noteq> [] \<Longrightarrow>
      message_text (Content None None (Some \<lparr>caption = Some txt, mediaKey = k\<rparr>) None) = txt"
    by (simp add: message_text_def first_truthy_def truthy_def)
  have a2: "match_command (message_text (?c ''!gifsticker'')) = Some ''gifsticker''"
    by (simp add: t match_gifsticker)
  have a3: "toLowerCase sample_env ''gifsticker'' = ''gifsticker''"
    by (simp add: toLowerCase_def lower_char_def)
  have a5: "match_command (message_text (?c ''!s'')) = Some ''s''"
    by (simp add: t match_s)
  have a6: "List.member [''sticker'', ''fig'', ''s''] (toLowerCase sample_env ''s'')"
    by (simp add: toLowerCase_def lower_char_def)
  have a7: "key_remoteJid (captioned_image ''!gifsticker'') = key_remoteJid (captioned_image ''!s'')"
    by (simp add: captioned_image_def)
  have a8: "sender_of (captioned_image ''!gifsticker'') = sender_of (captioned_image ''!s'')"
    by (simp add: sender_of_def captioned_image_def)
  have a9: "getMediaBuffer sample_env (captioned_image ''!gifsticker'') =
      getMediaBuffer sample_env (captioned_image ''!s'')"
    by (simp add: getMediaBuffer_def captioned_image_def media_types_def)
  have b1: "getMediaBuffer sample_env (captioned_image ''!gifsticker'') = Inr (Some ?m)"
    by (simp add: getMediaBuffer_def captioned_image_def media_types_def
        sample_env_def)
  have b2: "checkRateLimit (draw_now sample_draws) (sender_of (captioned_image ''!gifsticker''))
      (rateLimits init_state) =
      (Inr (), [''5511999999999@s.whatsapp.net'' \<mapsto> \<lparr>count = 1, resetTime = 1000\<rparr>])"
    by (simp add: checkRateLimit_def Let_def RATE_LIMIT_max_def init_state_def sample_draws_def
        sender_of_def captioned_image_def first_truthy_def truthy_def)
  have b3: "sharp_toBuffer sample_env (media_buffer ?m) (sharp_request 512 ''contain'') =
      Inr ''webp bytes''"
    by (simp add: sample_env_def)
  have b4: "send_fault sample_env (send_calls init_state)
      (key_remoteJid (captioned_image ''!gifsticker''))
      (Sticker ''webp bytes'' ''image/webp'' False) = None"
    by (simp add: sample_env_def)
  have b5: "length ''webp bytes'' \<le> 1024 * 1024" by simp
  have b6: "media_kind ?m = ''image''" by simp
  note th = gifsticker_is_sticker [OF m a2 a3 m a5 a6 a7 a8 a9, of sample_draws "[]" init_state "[]"]
  from th have e: "same_effects
     (snd (on_messages_upsert sample_env sample_draws [captioned_image ''!gifsticker''] init_state))
     (snd (on_messages_upsert sample_env sample_draws [captioned_image ''!s''] init_state))"
    by simp
  from th b1 b2 b3 b4 b5 b6
  have "fst (on_messages_upsert sample_env sample_draws [captioned_image ''!gifsticker''] init_state) =
      Inr () \<and>
    sent (snd (on_messages_upsert sample_env sample_draws [captioned_image ''!gifsticker''] init_state)) =
      sent init_state @ [(key_remoteJid (captioned_image ''!gifsticker''),
         Sticker ''webp bytes'' ''image/webp'' False)] \<and>
    sent (snd (on_messages_upsert sample_env sample_draws [captioned_image ''!s''] init_state)) =
      sent init_state @ [(key_remoteJid (captioned_image ''!gifsticker''),
         Sticker ''webp bytes'' ''image/webp'' False)]"
    by blast
  with e show ?thesis by (simp add: init_state_def captioned_image_def)
qed

section \<open>The group directory\<close>










end
